theory Spec2Isabelle
  imports Complex_Main "HOL-Library.List_Lexorder" "HOL-Library.Char_ord"
begin

section \<open>The education dashboard of \<open>visualize.py\<close>\<close>

text \<open>
  The program is one page function, \<open>main\<close>, which is run from top to bottom on every
  interaction. It loads a table, reads three widget values (the X key, the list of Y keys,
  the list of selected countries), filters and aggregates the table with the dataframe
  library, builds a scatter figure, shows the aggregated table and offers it for download.

  The embedding follows that order. A dataframe is a list of rows. The country identifier
  \<open>IDCNTRY\<close> of a row is a value of an ordered type \<open>'c\<close> or is missing (\<open>None\<close>, a NULL of
  the database table). The indicator columns of a row are read by name; an indicator cell
  is a number of type \<open>'v\<close> or is missing (\<open>None\<close>, the dataframe library's NaN or NULL).
  Every exception the page can raise is a value of \<open>py_error\<close>.
\<close>

subsection \<open>Data\<close>

datatype py_error = TypeError | KeyError | IndexError | ValueError | UnicodeEncodeError

text \<open>
  The numbers of a table are the library's: 64-bit binary floating point numbers other
  than NaN, or the 64-bit integers of an integer column. Their arithmetic is not
  computed here; it comes with the dataframe, as the three operations the page reaches:
  \<open>sum64 vs\<close> is the library's float64 sum of the numbers \<open>vs\<close> taken in order (\<open>None\<close> when
  that sum is NaN), \<open>div64 s n\<close> is the float64 quotient of the sum \<open>s\<close> by the count \<open>n\<close>,
  and \<open>exact_value v\<close> is the rational number that a finite \<open>v\<close> is exactly (\<open>None\<close> for an
  infinity).
\<close>

record 'v numerics =
  sum64 :: "'v list \<Rightarrow> 'v option"
  div64 :: "'v \<Rightarrow> nat \<Rightarrow> 'v"
  exact_value :: "'v \<Rightarrow> rat option"

type_synonym 'v cell = "'v option"

type_synonym ('c, 'v) row = "'c option \<times> (string \<Rightarrow> 'v cell)"

record ('c, 'v) dataframe =
  columns :: "string list"
  id_number :: "('c \<Rightarrow> 'v) option"
  numerics :: "'v numerics"
  rows :: "('c, 'v) row list"

text \<open>
  \<open>columns\<close> lists the indicator columns the loaded table has; reading any other column
  raises \<open>KeyError\<close>. \<open>id_number\<close> is \<open>Some f\<close> when the \<open>IDCNTRY\<close> column has a numeric
  dtype (\<open>f\<close> reads the number) and \<open>None\<close> when it holds text.

  The aggregated table has the country as its first column, named \<open>IDCNTRY\<close>, followed
  by the value columns \<open>tcolumns\<close>; each row carries its country and one cell per value
  column.
\<close>

record ('c, 'v) table =
  tcolumns :: "string list"
  tid_number :: "('c \<Rightarrow> 'v) option"
  tnumerics :: "'v numerics"
  trows :: "('c \<times> 'v cell list) list"

definition table_columns :: "('c, 'v) table \<Rightarrow> string list" where
  "table_columns t = ''IDCNTRY'' # tcolumns t"

definition cell_at :: "('c, 'v) table \<Rightarrow> 'v cell list \<Rightarrow> string \<Rightarrow> 'v cell option" where
  "cell_at t vals name = map_of (zip (tcolumns t) vals) name"

subsection \<open>Dataframe operations used by the page\<close>

text \<open>\<open>Series.unique()\<close>: the distinct values in order of first appearance.\<close>

definition unique :: "'a list \<Rightarrow> 'a list" where
  "unique xs = foldl (\<lambda>seen x. if x \<in> set seen then seen else seen @ [x]) [] xs"

text \<open>
  Lines 98-99: \<open>if selected_countries: df = df[df["IDCNTRY"].isin(selected_countries)]\<close>.
  An empty list is falsy, so the table is then left as it is. The selection is a list of
  options of the country filter, which offers the missing value too when the table has
  it; \<open>isin\<close> finds a missing country in a selection that holds the missing value.
\<close>

definition isin :: "'c option \<Rightarrow> 'c option list \<Rightarrow> bool" where
  "isin c selected = (c \<in> set selected)"

definition apply_filter :: "'c option list \<Rightarrow> ('c, 'v) dataframe \<Rightarrow> ('c, 'v) dataframe" where
  "apply_filter selected_countries df =
     (if selected_countries \<noteq> []
      then df\<lparr>rows := filter (\<lambda>r. isin (fst r) selected_countries) (rows df)\<rparr>
      else df)"

text \<open>
  \<open>df.groupby("IDCNTRY")\<close>: every row that has a country is put, in table order, into the
  group of its country, a new group being opened at the first row of a country; a row
  whose country is missing is put into no group (the library's default \<open>dropna=True\<close>);
  the groups are then ordered by country (the library's default \<open>sort=True\<close>).
\<close>

fun add_row ::
  "'c \<Rightarrow> ('c, 'v) row \<Rightarrow> ('c \<times> ('c, 'v) row list) list \<Rightarrow> ('c \<times> ('c, 'v) row list) list" where
  "add_row k r [] = [(k, [r])]"
| "add_row k r ((c, g) # gs) =
     (if k = c then (c, g @ [r]) # gs else (c, g) # add_row k r gs)"

definition place_row ::
  "('c \<times> ('c, 'v) row list) list \<Rightarrow> ('c, 'v) row \<Rightarrow> ('c \<times> ('c, 'v) row list) list" where
  "place_row gs r = (case fst r of None \<Rightarrow> gs | Some k \<Rightarrow> add_row k r gs)"

definition groupby :: "('c::linorder, 'v) row list \<Rightarrow> ('c \<times> ('c, 'v) row list) list" where
  "groupby rs = sort_key fst (foldl place_row [] rs)"

text \<open>
  The aggregation \<open>"mean"\<close>: the library's mean leaves missing cells out, is missing when
  no cell of the group has a value, and is otherwise the float64 sum of the cells that
  have one, divided by their number.
\<close>

fun dropna :: "'a option list \<Rightarrow> 'a list" where
  "dropna [] = []"
| "dropna (None # cs) = dropna cs"
| "dropna (Some v # cs) = v # dropna cs"

definition mean :: "'v numerics \<Rightarrow> 'v cell list \<Rightarrow> 'v cell" where
  "mean nm cs =
     (let vs = dropna cs
      in if vs = [] then None
         else (case sum64 nm vs of None \<Rightarrow> None | Some s \<Rightarrow> Some (div64 nm s (length vs))))"

definition column_of :: "string \<Rightarrow> ('c, 'v) row list \<Rightarrow> 'v cell list" where
  "column_of k rs = map (\<lambda>r. snd r k) rs"

text \<open>
  Lines 103-106: the keyword arguments of \<open>agg\<close>. \<open>avg k\<close> is the f-string
  \<open>f"avg_{k}"\<close>. The second dictionary is a comprehension over \<open>y_axes\<close>: a key that is
  written twice keeps its first position. Unpacking two dictionaries into one call raises
  \<open>TypeError\<close> when a key of the second is already a keyword of the call.
  A keyword \<open>name = (column, "mean")\<close> is kept as the pair \<open>(name, column)\<close>.
\<close>

definition avg :: "string \<Rightarrow> string" where
  "avg k = ''avg_'' @ k"

fun dict_set :: "('k \<times> 'v) list \<Rightarrow> 'k \<Rightarrow> 'v \<Rightarrow> ('k \<times> 'v) list" where
  "dict_set [] k v = [(k, v)]"
| "dict_set ((k', v') # d) k v =
     (if k' = k then (k', v) # d else (k', v') # dict_set d k v)"

definition y_kwargs :: "string list \<Rightarrow> (string \<times> string) list" where
  "y_kwargs y_axes = foldl (\<lambda>d y. dict_set d (avg y) y) [] y_axes"

definition call_kwargs ::
  "('k \<times> 'v) list \<Rightarrow> ('k \<times> 'v) list \<Rightarrow> py_error + ('k \<times> 'v) list" where
  "call_kwargs d1 d2 =
     (if list_ex (\<lambda>k. k \<in> set (map fst d1)) (map fst d2) then Inl TypeError
      else Inr (d1 @ d2))"

text \<open>
  \<open>.agg(**kwargs).reset_index()\<close>: a keyword naming a column the table does not have
  raises \<open>KeyError\<close>; otherwise there is one output row per group, holding the group's
  country and, for each keyword in order, the mean of its column over the group's rows.
\<close>

definition agg ::
  "('c, 'v) dataframe \<Rightarrow> ('c \<times> ('c, 'v) row list) list \<Rightarrow> (string \<times> string) list \<Rightarrow>
     py_error + ('c, 'v) table" where
  "agg df groups kwargs =
     (if list_all (\<lambda>k. k \<in> set (columns df)) (map snd kwargs)
      then Inr \<lparr>tcolumns = map fst kwargs,
                tid_number = id_number df,
                tnumerics = numerics df,
                trows = map (\<lambda>(c, g). (c, map (\<lambda>(n, k). mean (numerics df) (column_of k g)) kwargs))
                          groups\<rparr>
      else Inl KeyError)"

definition aggregate ::
  "('c::linorder, 'v) dataframe \<Rightarrow> 'c option list \<Rightarrow> string \<Rightarrow> string list \<Rightarrow>
     py_error + ('c, 'v) table" where
  "aggregate df selected_countries x_axis y_axes =
     (let df' = apply_filter selected_countries df;
          grouped = groupby (rows df')
      in case call_kwargs [(avg x_axis, x_axis)] (y_kwargs y_axes) of
           Inl e \<Rightarrow> Inl e
         | Inr kwargs \<Rightarrow> agg df' grouped kwargs)"

text \<open>
  The relation between a list of rows and its groups that the grouping loop maintains:
  one group per country that occurs, holding exactly the rows of that country in table
  order.
\<close>

definition grouped :: "('c, 'v) row list \<Rightarrow> ('c \<times> ('c, 'v) row list) list \<Rightarrow> bool" where
  "grouped rs gs \<longleftrightarrow>
     distinct (map fst gs) \<and> Some ` fst ` set gs = fst ` set rs - {None} \<and>
     (\<forall>c g. (c, g) \<in> set gs \<longrightarrow> g = filter (\<lambda>r. fst r = Some c) rs)"

subsection \<open>The indicator catalogue\<close>

text \<open>
  Display text is a list of Unicode code points (a Python \<open>str\<close>); column keys are
  ASCII. \<open>INDICATOR_MAPPING\<close> is the dictionary of lines 36-63, in source order, and
  \<open>label k\<close> is the subscript \<open>INDICATOR_MAPPING[k]\<close>, which raises \<open>KeyError\<close> for a
  key the dictionary lacks.
\<close>

type_synonym ustr = "nat list"

definition INDICATOR_MAPPING :: "(string \<times> ustr) list" where
  "INDICATOR_MAPPING =
    [(''reading_score'', [38405, 35835, 25104, 32489]),
     (''literary_purpose'', [25991, 23398, 20307, 39564, 30446, 30340]),
     (''info_purpose'', [20449, 24687, 33719, 21462, 30446, 30340]),
     (''integration_process'', [29702, 35299, 25972, 21512, 33021, 21147]),
     (''inference_process'', [26816, 32034, 25512, 29702, 33021, 21147]),
     (''reading_level'', [38405, 35835, 37327, 32423]),
     (''weekly_reading_hours'', [27599, 21608, 38405, 35835, 26102, 38271]),
     (''interest_reading_freq'', [20852, 36259, 38405, 35835, 39057, 29575]),
     (''reading_time_outside'', [35838, 22806, 38405, 35835, 26102, 38388]),
     (''home_books'', [23478, 24237, 34255, 20070, 37327]),
     (''children_book_count'', [20799, 31461, 20070, 31821, 25968, 37327]),
     (''study_space_count'', [23478, 24237, 23398, 20064, 31354, 38388, 25968]),
     (''guardian_a_education'', [30417, 25252, 20154, 65, 25945, 32946, 31243, 24230]),
     (''guardian_b_education'', [30417, 25252, 20154, 66, 25945, 32946, 31243, 24230]),
     (''child_education_expect'', [23401, 23376, 25945, 32946, 26399, 26395]),
     (''teaching_days_per_year'', [27599, 24180, 25945, 23398, 22825, 25968]),
     (''teaching_hours_per_week'', [27599, 21608, 25945, 23398, 26102, 38271]),
     (''computer_count'', [23398, 26657, 35745, 31639, 26426, 25968, 37327]),
     (''class_library_books'', [29677, 32423, 22270, 20070, 39302, 34255, 20070, 37327]),
     (''teaching_years'', [25945, 24072, 25945, 40836]),
     (''provide_materials_freq'', [25945, 26448, 25552, 20379, 39057, 29575]),
     (''encourage_comprehension_freq'', [40723, 21169, 29702, 35299, 39057, 29575])]"

definition indicator_keys :: "string list" where
  "indicator_keys = map fst INDICATOR_MAPPING"

definition label :: "string \<Rightarrow> py_error + ustr" where
  "label k = (case map_of INDICATOR_MAPPING k of None \<Rightarrow> Inl KeyError | Some l \<Rightarrow> Inr l)"

fun labels :: "string list \<Rightarrow> py_error + ustr list" where
  "labels [] = Inr []"
| "labels (y # ys) =
     (case label y of
        Inl e \<Rightarrow> Inl e
      | Inr l \<Rightarrow> (case labels ys of Inl e \<Rightarrow> Inl e | Inr ls \<Rightarrow> Inr (l # ls)))"

fun join :: "ustr \<Rightarrow> ustr list \<Rightarrow> ustr" where
  "join sep [] = []"
| "join sep [s] = s"
| "join sep (s # t # ss) = s @ sep @ join sep (t # ss)"

subsection \<open>The figure\<close>

text \<open>
  \<open>series t name\<close> is the column read \<open>agg_df[name]\<close>: the cells of that column in row
  order, or \<open>KeyError\<close>. A row that should hold fewer cells than the table has columns
  does not occur in a dataframe; such a gap reads as a missing cell.
\<close>

definition read_cell :: "('c, 'v) table \<Rightarrow> 'v cell list \<Rightarrow> string \<Rightarrow> 'v cell" where
  "read_cell t vals name = (case cell_at t vals name of Some v \<Rightarrow> v | None \<Rightarrow> None)"

definition column_cells :: "('c, 'v) table \<Rightarrow> string \<Rightarrow> 'v cell list" where
  "column_cells t name = map (\<lambda>(c, vals). read_cell t vals name) (trows t)"

definition series :: "('c, 'v) table \<Rightarrow> string \<Rightarrow> py_error + 'v cell list" where
  "series t name =
     (if name \<in> set (tcolumns t) then Inr (column_cells t name) else Inl KeyError)"

text \<open>
  A figure holds the data of the traces and the axes of its layout. A trace added by
  \<open>add_scatter\<close> names the axis it is drawn against by an axis id (\<open>y\<close>, \<open>y2\<close>, \<open>y3\<close>, ...);
  the layout configures an axis under its layout key (\<open>yaxis\<close>, \<open>yaxis2\<close>, ...), and
  \<open>update_layout\<close> writes the keys it is given. Styling that is the same in every run
  (height, hover label, legend, grid) is left out.
\<close>

record 'v trace =
  trace_x :: "'v cell list"
  trace_y :: "'v cell list"
  trace_name :: ustr
  trace_mode :: string
  marker_symbol :: nat
  marker_size :: nat
  trace_yaxis :: string

record axis =
  axis_title :: ustr
  overlaying :: "string option"
  side :: "string option"

record ('c, 'v) figure =
  px_data :: "('c \<times> 'v cell \<times> string \<times> 'v cell) list"
  added :: "'v trace list"
  layout_axes :: "(string \<times> axis) list"

text \<open>
  Lines 112-125. \<open>px.scatter\<close> is given the X column and the list of \<^emph>\<open>all\<close> selected Y
  columns (\<open>y=[f"avg_{y}" for y in y_axes]\<close>), that is, the table in wide form. The
  plotting library stacks the listed columns into long form: for each listed column in
  turn, one point \<open>(country, x, variable, value)\<close> per table row; the traces of the figure
  are cut from these points by colour (\<open>color="IDCNTRY"\<close>). The part of the figure built
  by \<open>px.scatter\<close> is represented by these points, \<open>px_data\<close>. A column name the table
  lacks raises \<open>ValueError\<close>. The axis titles come from the \<open>labels\<close> argument.
\<close>

definition melt :: "('c, 'v) table \<Rightarrow> string \<Rightarrow> string list \<Rightarrow> ('c \<times> 'v cell \<times> string \<times> 'v cell) list" where
  "melt t x ys =
     concat (map (\<lambda>y. map (\<lambda>(c, vals). (c, read_cell t vals x, y, read_cell t vals y)) (trows t)) ys)"

definition px_scatter ::
  "('c, 'v) table \<Rightarrow> string \<Rightarrow> string list \<Rightarrow> ustr \<Rightarrow> py_error + ('c, 'v) figure" where
  "px_scatter t x ys x_label =
     (if x \<in> set (tcolumns t) \<and> list_all (\<lambda>y. y \<in> set (tcolumns t)) ys
      then Inr \<lparr>px_data = melt t x ys, added = [],
                layout_axes =
                  [(''xaxis'', \<lparr>axis_title = x_label, overlaying = None, side = None\<rparr>),
                   (''yaxis'', \<lparr>axis_title = [25351, 26631, 24179, 22343, 20540],
                                overlaying = None, side = None\<rparr>)]\<rparr>
      else Inl ValueError)"

text \<open>Decimal text of a number, as the f-string \<open>f"y{i + 2}"\<close> writes it.\<close>

definition digit :: "nat \<Rightarrow> char" where
  "digit d = ''0123456789'' ! d"

fun str_nat :: "nat \<Rightarrow> string" where
  "str_nat n =
     (if n < 10 then [digit n]
      else str_nat (n div 10) @ [digit (n mod 10)])"

declare str_nat.simps [simp del]

text \<open>
  Lines 130-137: \<open>fig.add_scatter(x=..., y=..., name=..., mode="markers",
  marker=dict(symbol=i + 2, size=12), yaxis=f"y{i + 2}")\<close> appends one trace.
\<close>

definition add_scatter ::
  "('c, 'v) figure \<Rightarrow> 'v cell list \<Rightarrow> 'v cell list \<Rightarrow> ustr \<Rightarrow> nat \<Rightarrow> ('c, 'v) figure" where
  "add_scatter fig xs ys name i =
     fig\<lparr>added := added fig @
            [\<lparr>trace_x = xs, trace_y = ys, trace_name = name, trace_mode = ''markers'',
              marker_symbol = i + 2, marker_size = 12,
              trace_yaxis = ''y'' @ str_nat (i + 2)\<rparr>]\<rparr>"

text \<open>
  Line 129: the loop \<open>for i, y in enumerate(y_axes[1:])\<close>, called with the counter \<open>i\<close>
  and the keys still to do.
\<close>

fun add_scatter_loop ::
  "('c, 'v) table \<Rightarrow> string \<Rightarrow> nat \<Rightarrow> string list \<Rightarrow> ('c, 'v) figure \<Rightarrow> py_error + ('c, 'v) figure" where
  "add_scatter_loop agg_df x_axis i [] fig = Inr fig"
| "add_scatter_loop agg_df x_axis i (y # rest) fig =
     (case series agg_df (avg x_axis) of
        Inl e \<Rightarrow> Inl e
      | Inr xs \<Rightarrow>
          (case series agg_df (avg y) of
             Inl e \<Rightarrow> Inl e
           | Inr ys \<Rightarrow>
               (case label y of
                  Inl e \<Rightarrow> Inl e
                | Inr name \<Rightarrow>
                    add_scatter_loop agg_df x_axis (i + 1) rest
                      (add_scatter fig xs ys name i))))"

text \<open>\<open>fig.update_layout(key=dict(...))\<close> for one axis key.\<close>

definition update_layout :: "('c, 'v) figure \<Rightarrow> string \<Rightarrow> axis \<Rightarrow> ('c, 'v) figure" where
  "update_layout fig key a = fig\<lparr>layout_axes := dict_set (layout_axes fig) key a\<rparr>"

text \<open>Lines 128-144: the overlay traces and the one \<open>yaxis2\<close> of the layout.\<close>

definition multi_y ::
  "('c, 'v) table \<Rightarrow> string \<Rightarrow> string list \<Rightarrow> ('c, 'v) figure \<Rightarrow> py_error + ('c, 'v) figure" where
  "multi_y agg_df x_axis y_axes fig =
     (if length y_axes > 1
      then (case add_scatter_loop agg_df x_axis 0 (tl y_axes) fig of
              Inl e \<Rightarrow> Inl e
            | Inr fig' \<Rightarrow>
                (case label (y_axes ! 1) of
                   Inl e \<Rightarrow> Inl e
                 | Inr l \<Rightarrow>
                     Inr (update_layout fig' ''yaxis2''
                            \<lparr>axis_title = l, overlaying = Some ''y'', side = Some ''right''\<rparr>)))
      else Inr fig)"

text \<open>
  Lines 147-152: the axis titles. \<open>y_axes[0]\<close> raises \<open>IndexError\<close> on an empty list.
  A title is written into the axis the layout already has under that key.
\<close>

definition first_key :: "string list \<Rightarrow> py_error + string" where
  "first_key y_axes = (case y_axes of [] \<Rightarrow> Inl IndexError | y # _ \<Rightarrow> Inr y)"

definition set_title :: "('c, 'v) figure \<Rightarrow> string \<Rightarrow> ustr \<Rightarrow> ('c, 'v) figure" where
  "set_title fig key title =
     update_layout fig key
       (case map_of (layout_axes fig) key of
          None \<Rightarrow> \<lparr>axis_title = title, overlaying = None, side = None\<rparr>
        | Some a \<Rightarrow> a\<lparr>axis_title := title\<rparr>)"

definition axis_titles :: "string \<Rightarrow> string list \<Rightarrow> ('c, 'v) figure \<Rightarrow> py_error + ('c, 'v) figure" where
  "axis_titles x_axis y_axes fig =
     (case label x_axis of
        Inl e \<Rightarrow> Inl e
      | Inr lx \<Rightarrow>
          (case first_key y_axes of
             Inl e \<Rightarrow> Inl e
           | Inr y0 \<Rightarrow>
               (case label y0 of
                  Inl e \<Rightarrow> Inl e
                | Inr ly \<Rightarrow>
                    Inr (set_title (set_title fig ''xaxis'' ([24179, 22343, 32] @ lx))
                           ''yaxis'' ly))))"

definition build_figure :: "('c, 'v) table \<Rightarrow> string \<Rightarrow> string list \<Rightarrow> py_error + ('c, 'v) figure" where
  "build_figure agg_df x_axis y_axes =
     (case label x_axis of
        Inl e \<Rightarrow> Inl e
      | Inr lx \<Rightarrow>
          (case px_scatter agg_df (avg x_axis) (map avg y_axes) ([24179, 22343, 32] @ lx) of
             Inl e \<Rightarrow> Inl e
           | Inr fig \<Rightarrow>
               (case multi_y agg_df x_axis y_axes fig of
                  Inl e \<Rightarrow> Inl e
                | Inr fig' \<Rightarrow> axis_titles x_axis y_axes fig')))"

text \<open>
  The trace that pass \<open>i\<close> of the loop adds for the Y key \<open>y\<close>, written out with the
  column reads and the catalogue lookup done; and a layout axis that has a title only.
\<close>

definition overlay :: "('c, 'v) table \<Rightarrow> string \<Rightarrow> nat \<Rightarrow> string \<Rightarrow> 'v trace" where
  "overlay t x i y =
     \<lparr>trace_x = column_cells t (avg x), trace_y = column_cells t (avg y),
      trace_name = the (map_of INDICATOR_MAPPING y), trace_mode = ''markers'',
      marker_symbol = i + 2, marker_size = 12, trace_yaxis = ''y'' @ str_nat (i + 2)\<rparr>"

definition title_axis :: "ustr \<Rightarrow> axis" where
  "title_axis l = \<lparr>axis_title = l, overlaying = None, side = None\<rparr>"

subsection \<open>The table view and the download\<close>

text \<open>
  Lines 158-161: \<open>"{:.2f}"\<close> is applied to the columns of numeric dtype. The text it gives
  for a finite number is kept as the number it denotes: the exact value rounded to a
  multiple of \<open>1/100\<close>, a tie going to the even neighbour. An infinity and a missing cell
  have no digits to round (they read \<open>inf\<close> and \<open>nan\<close>). A text column is shown as it is.
\<close>

definition round_half_even :: "rat \<Rightarrow> int" where
  "round_half_even q =
     (let f = \<lfloor>q\<rfloor>; d = q - of_int f
      in if d < 1 / 2 then f
         else if 1 / 2 < d then f + 1
         else if even f then f else f + 1)"

definition format_2f :: "rat \<Rightarrow> rat" where
  "format_2f q = of_int (round_half_even (q * 100)) / 100"

datatype ('c, 'v) shown = Plain 'c | Fixed2 rat | Infinite 'v | Nan

definition shown_number :: "'v numerics \<Rightarrow> 'v \<Rightarrow> ('c, 'v) shown" where
  "shown_number nm v =
     (case exact_value nm v of None \<Rightarrow> Infinite v | Some q \<Rightarrow> Fixed2 (format_2f q))"

definition shown_cell :: "'v numerics \<Rightarrow> 'v cell \<Rightarrow> ('c, 'v) shown" where
  "shown_cell nm c = (case c of None \<Rightarrow> Nan | Some v \<Rightarrow> shown_number nm v)"

record ('c, 'v) styled =
  shown_columns :: "string list"
  shown_rows :: "('c, 'v) shown list list"

definition style_format :: "('c, 'v) table \<Rightarrow> ('c, 'v) styled" where
  "style_format agg_df =
     \<lparr>shown_columns = table_columns agg_df,
      shown_rows =
        map (\<lambda>(c, vals).
               (case tid_number agg_df of
                  None \<Rightarrow> Plain c
                | Some f \<Rightarrow> shown_number (tnumerics agg_df) (f c))
               # map (shown_cell (tnumerics agg_df)) vals)
            (trows agg_df)\<rparr>"

text \<open>
  Line 167: \<open>agg_df.to_csv(index=False).encode("utf-8")\<close>. The export is first taken as
  its records: the header record of column names, then one record per table row, each
  field carrying the value the table holds.
\<close>

datatype ('c, 'v) csv_field = Name string | Ident 'c | Number "'v cell"

definition to_csv :: "('c, 'v) table \<Rightarrow> ('c, 'v) csv_field list list" where
  "to_csv agg_df =
     map Name (table_columns agg_df)
     # map (\<lambda>(c, vals). Ident c # map Number vals) (trows agg_df)"






subsection \<open>Reading the download back\<close>





subsection \<open>The page\<close>

text \<open>
  What a run of \<open>main\<close> has put on the page, in order, and the exception that ended the
  run, if any: the hosting framework shows the elements emitted before an exception.
  \<open>df\<close> is the table that \<open>load_data\<close> returns in this run; \<open>x_axis\<close>, \<open>y_axes\<close> and
  \<open>selected_countries\<close> are the values the three widgets return in it. The download
  button is kept with the records of the export, whose bytes \<open>download_data\<close> gives.
\<close>

datatype ('c, 'v) element =
    Title
  | Header
  | Selectbox "string list"
  | Multiselect "string list" "string list"
  | Subheader ustr
  | CountryMultiselect "'c option list"
  | Headline ustr
  | PlotlyChart "('c, 'v) figure"
  | Dataframe "('c, 'v) styled"
  | DownloadButton "('c, 'v) csv_field list list"

definition sidebar :: "('c, 'v) dataframe \<Rightarrow> ('c, 'v) element list" where
  "sidebar df =
     [Header,
      Selectbox indicator_keys,
      Multiselect indicator_keys [''teaching_hours_per_week''],
      Subheader [25968, 25454, 31579, 36873],
      CountryMultiselect (unique (map fst (rows df)))]"

definition headline :: "string \<Rightarrow> string list \<Rightarrow> py_error + ustr" where
  "headline x_axis y_axes =
     (case label x_axis of
        Inl e \<Rightarrow> Inl e
      | Inr lx \<Rightarrow>
          (case labels y_axes of
             Inl e \<Rightarrow> Inl e
           | Inr ls \<Rightarrow>
               Inr ([22269, 23478, 47, 22320, 21306, 32500, 24230, 20998, 26512, 65306]
                    @ lx @ [32, 118, 115, 32] @ join [47] ls)))"

definition main ::
  "('c::linorder, 'v) dataframe \<Rightarrow> string \<Rightarrow> string list \<Rightarrow> 'c option list \<Rightarrow>
     ('c, 'v) element list \<times> py_error option" where
  "main df x_axis y_axes selected_countries =
     (let page = Title # sidebar df
      in case aggregate df selected_countries x_axis y_axes of
           Inl e \<Rightarrow> (page, Some e)
         | Inr agg_df \<Rightarrow>
             (case headline x_axis y_axes of
                Inl e \<Rightarrow> (page, Some e)
              | Inr h \<Rightarrow>
                  (case build_figure agg_df x_axis y_axes of
                     Inl e \<Rightarrow> (page @ [Headline h], Some e)
                   | Inr fig \<Rightarrow>
                       (page @ [Headline h, PlotlyChart fig,
                                Dataframe (style_format agg_df),
                                DownloadButton (to_csv agg_df)], None))))"

subsection \<open>The aggregation as the specification words it\<close>

text \<open>
  The rows kept by the filter: only rows whose country is in the filter selection when
  that selection is non-empty, all rows otherwise. The rows that share the country \<open>c\<close>
  after filtering. The cells of column \<open>k\<close> that have a value, over given rows.
\<close>

definition kept_rows :: "'c option list \<Rightarrow> ('c, 'v) dataframe \<Rightarrow> ('c, 'v) row list" where
  "kept_rows selected_countries df =
     (if selected_countries = [] then rows df
      else filter (\<lambda>r. fst r \<in> set selected_countries) (rows df))"

definition rows_sharing :: "'c \<Rightarrow> 'c option list \<Rightarrow> ('c, 'v) dataframe \<Rightarrow> ('c, 'v) row list" where
  "rows_sharing c selected_countries df =
     filter (\<lambda>r. fst r = Some c) (kept_rows selected_countries df)"

definition present_cells :: "string \<Rightarrow> ('c, 'v) row list \<Rightarrow> 'v list" where
  "present_cells k rs = map the (filter (\<lambda>c. c \<noteq> None) (map (\<lambda>r. snd r k) rs))"

subsection \<open>Small datasets\<close>

text \<open>
  An arithmetic on rationals that does not round. Float64 arithmetic agrees with it
  wherever the sums and quotients are exactly representable, as they are on the datasets
  below (small whole numbers and halves).
\<close>

definition exact_numerics :: "rat numerics" where
  "exact_numerics =
     \<lparr>sum64 = (\<lambda>vs. Some (sum_list vs)), div64 = (\<lambda>s n. s / of_nat n), exact_value = Some\<rparr>"

text \<open>
  Three respondents of two countries, with the reading scores 10 and 20 in country \<open>A\<close>
  and 5 in country \<open>B\<close>; the second respondent of \<open>A\<close> has no value for \<open>home_books\<close>, and
  no respondent has a value for \<open>computer_count\<close>.
\<close>

definition example_df :: "(string, rat) dataframe" where
  "example_df =
     \<lparr>columns = indicator_keys, id_number = None, numerics = exact_numerics,
      rows = [(Some ''B'', map_of [(''reading_score'', 5), (''home_books'', 4), (''teaching_years'', 7)]),
              (Some ''A'', map_of [(''reading_score'', 10), (''home_books'', 1), (''teaching_years'', 2)]),
              (Some ''A'', map_of [(''reading_score'', 20), (''teaching_years'', 3)])]\<rparr>"

text \<open>
  The aggregated tables of that dataset for one, two and three Y keys (the X key being
  \<open>reading_score\<close>), and its aggregated table for the country selection \<open>A\<close>.
\<close>

definition example_agg :: "(string, rat) table" where
  "example_agg =
     \<lparr>tcolumns = [''avg_reading_score'', ''avg_home_books''], tid_number = None,
      tnumerics = exact_numerics,
      trows = [(''A'', [Some 15, Some 1]), (''B'', [Some 5, Some 4])]\<rparr>"

definition example_agg2 :: "(string, rat) table" where
  "example_agg2 =
     \<lparr>tcolumns = [''avg_reading_score'', ''avg_home_books'', ''avg_teaching_years''],
      tid_number = None, tnumerics = exact_numerics,
      trows = [(''A'', [Some 15, Some 1, Some (5 / 2)]), (''B'', [Some 5, Some 4, Some 7])]\<rparr>"

definition example_agg3 :: "(string, rat) table" where
  "example_agg3 =
     \<lparr>tcolumns = [''avg_reading_score'', ''avg_home_books'', ''avg_teaching_years'',
                  ''avg_computer_count''],
      tid_number = None, tnumerics = exact_numerics,
      trows = [(''A'', [Some 15, Some 1, Some (5 / 2), None]),
               (''B'', [Some 5, Some 4, Some 7, None])]\<rparr>"

definition example_agg_A :: "(string, rat) table" where
  "example_agg_A =
     \<lparr>tcolumns = [''avg_reading_score'', ''avg_home_books''], tid_number = None,
      tnumerics = exact_numerics,
      trows = [(''A'', [Some 15, Some 1])]\<rparr>"

text \<open>
  The same respondents with one more, whose country is missing; and the aggregated table
  of that dataset.
\<close>

definition example_null_df :: "(string, rat) dataframe" where
  "example_null_df =
     \<lparr>columns = indicator_keys, id_number = None, numerics = exact_numerics,
      rows = [(Some ''B'', map_of [(''reading_score'', 5), (''home_books'', 4), (''teaching_years'', 7)]),
              (None, map_of [(''reading_score'', 40), (''home_books'', 8)]),
              (Some ''A'', map_of [(''reading_score'', 10), (''home_books'', 1), (''teaching_years'', 2)]),
              (Some ''A'', map_of [(''reading_score'', 20), (''teaching_years'', 3)])]\<rparr>"



section \<open>Properties\<close>

subsection \<open>Distinct values and the keyword dictionaries\<close>

lemma unique_foldl_set:
  "set (foldl (\<lambda>seen x. if x \<in> set seen then seen else seen @ [x]) acc xs) = set acc \<union> set xs"
  by (induction xs arbitrary: acc) auto

lemma unique_foldl_distinct:
  "distinct acc \<Longrightarrow> distinct (foldl (\<lambda>seen x. if x \<in> set seen then seen else seen @ [x]) acc xs)"
  by (induction xs arbitrary: acc) auto

lemma set_unique: "set (unique xs) = set xs"
  by (simp add: unique_def unique_foldl_set)

lemma distinct_unique: "distinct (unique xs)"
  by (simp add: unique_def unique_foldl_distinct)

lemma unique_foldl_id:
  "distinct (acc @ xs) \<Longrightarrow> foldl (\<lambda>seen x. if x \<in> set seen then seen else seen @ [x]) acc xs = acc @ xs"
  by (induction xs arbitrary: acc) auto

lemma unique_distinct: "distinct xs \<Longrightarrow> unique xs = xs"
  using unique_foldl_id [of "[]" xs] by (simp add: unique_def)

lemma avg_inj: "avg a = avg b \<longleftrightarrow> a = b"
  by (simp add: avg_def)

lemma dict_set_avg:
  "dict_set (map (\<lambda>y. (avg y, y)) l) (avg y) y =
     map (\<lambda>y. (avg y, y)) (if y \<in> set l then l else l @ [y])"
  by (induction l) (auto simp: avg_inj)

lemma y_kwargs_foldl:
  "foldl (\<lambda>d y. dict_set d (avg y) y) (map (\<lambda>y. (avg y, y)) l) ys =
     map (\<lambda>y. (avg y, y)) (foldl (\<lambda>seen x. if x \<in> set seen then seen else seen @ [x]) l ys)"
proof (induction ys arbitrary: l)
  case Nil
  show ?case by simp
next
  case (Cons y ys)
  show ?case
    using Cons.IH [of "if y \<in> set l then l else l @ [y]"]
    by (simp only: foldl_Cons dict_set_avg)
qed

lemma y_kwargs_unique: "y_kwargs ys = map (\<lambda>y. (avg y, y)) (unique ys)"
  using y_kwargs_foldl [of "[]" ys] by (simp add: y_kwargs_def unique_def)

lemma call_kwargs_avg:
  "call_kwargs [(avg x, x)] (y_kwargs ys) =
     (if x \<in> set ys then Inl TypeError else Inr (map (\<lambda>k. (avg k, k)) (x # unique ys)))"
  by (auto simp: call_kwargs_def y_kwargs_unique set_unique avg_inj image_iff list_ex_iff)

subsection \<open>Grouping\<close>

lemma add_row_keys:
  "map fst (add_row k r gs) = (if k \<in> fst ` set gs then map fst gs else map fst gs @ [k])"
proof (induction gs)
  case Nil
  show ?case by simp
next
  case (Cons p gs)
  obtain a b where p: "p = (a, b)" by (cases p)
  show ?case using Cons.IH by (auto simp: p)
qed

lemma add_row_mem_other:
  "c \<noteq> k \<Longrightarrow> (c, g) \<in> set (add_row k r gs) \<longleftrightarrow> (c, g) \<in> set gs"
proof (induction gs)
  case Nil
  then show ?case by auto
next
  case (Cons p gs)
  obtain a b where p: "p = (a, b)" by (cases p)
  show ?case using Cons by (auto simp: p)
qed

lemma add_row_mem_same:
  "distinct (map fst gs) \<Longrightarrow> (k, g) \<in> set (add_row k r gs) \<Longrightarrow>
     (\<exists>g0. (k, g0) \<in> set gs \<and> g = g0 @ [r]) \<or> (k \<notin> fst ` set gs \<and> g = [r])"
proof (induction gs)
  case Nil
  then show ?case by simp
next
  case (Cons p gs)
  obtain a b where p: "p = (a, b)" by (cases p)
  show ?case
  proof (cases "k = a")
    case True
    with Cons.prems show ?thesis by (auto simp: p image_iff)
  next
    case False
    with Cons.prems have "(k, g) \<in> set (add_row k r gs)" and "distinct (map fst gs)"
      by (auto simp: p)
    with Cons.IH have "(\<exists>g0. (k, g0) \<in> set gs \<and> g = g0 @ [r]) \<or> (k \<notin> fst ` set gs \<and> g = [r])"
      by blast
    with False show ?thesis by (auto simp: p)
  qed
qed

lemma grouped_step:
  assumes "grouped rs gs"
  shows "grouped (rs @ [r]) (place_row gs r)"
proof -
  from assms have d: "distinct (map fst gs)"
    and k: "Some ` fst ` set gs = fst ` set rs - {None}"
    and f: "\<And>c g. (c, g) \<in> set gs \<Longrightarrow> g = filter (\<lambda>r. fst r = Some c) rs"
    by (auto simp: grouped_def)
  show ?thesis
  proof (cases "fst r")
    case None
    have p: "place_row gs r = gs"
      by (simp add: place_row_def None)
    have k': "Some ` fst ` set gs = fst ` set (rs @ [r]) - {None}"
      using k None by auto
    have f': "g = filter (\<lambda>r'. fst r' = Some c) (rs @ [r])" if "(c, g) \<in> set gs" for c g
      using f [OF that] None by simp
    from d k' f' show ?thesis
      unfolding grouped_def p by blast
  next
    case (Some key)
    have p: "place_row gs r = add_row key r gs"
      by (simp add: place_row_def Some)
    have d': "distinct (map fst (add_row key r gs))"
      using d by (simp add: add_row_keys)
    have "set (map fst (add_row key r gs)) = insert key (fst ` set gs)"
      by (auto simp: add_row_keys)
    then have "fst ` set (add_row key r gs) = insert key (fst ` set gs)"
      by simp
    then have "Some ` fst ` set (add_row key r gs) = insert (Some key) (Some ` fst ` set gs)"
      by simp
    also have "\<dots> = insert (fst r) (fst ` set rs - {None})"
      by (simp only: k Some)
    also have "\<dots> = fst ` set (rs @ [r]) - {None}"
      using Some by auto
    finally have k': "Some ` fst ` set (add_row key r gs) = fst ` set (rs @ [r]) - {None}" .
    have f': "g = filter (\<lambda>r'. fst r' = Some c) (rs @ [r])"
      if m: "(c, g) \<in> set (add_row key r gs)" for c g
    proof (cases "c = key")
      case True
      from add_row_mem_same [OF d] m True
      consider g0 where "(key, g0) \<in> set gs" "g = g0 @ [r]"
        | "key \<notin> fst ` set gs" "g = [r]" by blast
      then show ?thesis
      proof cases
        case 1
        with f [of key g0] True Some show ?thesis by simp
      next
        case 2
        have "Some key \<notin> Some ` fst ` set gs"
          using 2(1) by auto
        then have "Some key \<notin> fst ` set rs"
          unfolding k by simp
        then have "\<forall>x \<in> set rs. fst x \<noteq> Some key"
          by (metis imageI)
        then have "filter (\<lambda>r'. fst r' = Some key) rs = []"
          by (simp add: filter_empty_conv)
        with 2 True Some show ?thesis by simp
      qed
    next
      case False
      with m have "(c, g) \<in> set gs" by (simp add: add_row_mem_other)
      with f False Some show ?thesis by auto
    qed
    from d' k' f' show ?thesis
      unfolding grouped_def p by blast
  qed
qed

lemma grouped_foldl: "grouped rs (foldl place_row [] rs)"
  by (induction rs rule: rev_induct) (simp_all add: grouped_def[of "[]"] grouped_step)

lemma groupby_keys_distinct: "distinct (map fst (groupby rs))"
proof -
  have "distinct (map fst (foldl place_row [] rs))"
    using grouped_foldl [of rs] by (simp add: grouped_def)
  then show ?thesis
    unfolding groupby_def by (metis distinct_map distinct_sort set_sort)
qed

lemma groupby_keys_set: "fst ` set (groupby rs) = {c. Some c \<in> fst ` set rs}"
proof -
  have "Some ` fst ` set (foldl place_row [] rs) = fst ` set rs - {None}"
    using grouped_foldl [of rs] by (simp add: grouped_def)
  then have "Some ` fst ` set (groupby rs) = fst ` set rs - {None}"
    by (simp add: groupby_def)
  then have e: "Some ` fst ` set (groupby rs) = fst ` set rs - {None}" .
  show ?thesis
  proof (rule set_eqI)
    fix c
    have "c \<in> fst ` set (groupby rs) \<longleftrightarrow> Some c \<in> Some ` fst ` set (groupby rs)"
      by blast
    also have "\<dots> \<longleftrightarrow> Some c \<in> fst ` set rs"
      unfolding e by simp
    finally show "c \<in> fst ` set (groupby rs) \<longleftrightarrow> c \<in> {c. Some c \<in> fst ` set rs}"
      by simp
  qed
qed

lemma groupby_group:
  "(c, g) \<in> set (groupby rs) \<Longrightarrow> g = filter (\<lambda>r. fst r = Some c) rs"
  using grouped_foldl [of rs] by (simp add: groupby_def grouped_def)

lemma groupby_keys_sorted: "sorted (map fst (groupby rs))"
  by (simp add: groupby_def)

subsection \<open>The aggregation step\<close>

lemma apply_filter_columns: "columns (apply_filter sel df) = columns df"
  by (simp add: apply_filter_def)

lemma apply_filter_id_number: "id_number (apply_filter sel df) = id_number df"
  by (simp add: apply_filter_def)

lemma apply_filter_numerics: "numerics (apply_filter sel df) = numerics df"
  by (simp add: apply_filter_def)

lemma apply_filter_rows: "rows (apply_filter sel df) = kept_rows sel df"
  by (simp add: apply_filter_def kept_rows_def isin_def)

lemma aggregate_eq:
  "aggregate df sel x ys =
     (if x \<in> set ys then Inl TypeError
      else if set (x # ys) \<subseteq> set (columns df)
      then Inr \<lparr>tcolumns = map avg (x # unique ys),
                tid_number = id_number df,
                tnumerics = numerics df,
                trows = map (\<lambda>(c, g). (c, map (\<lambda>k. mean (numerics df) (column_of k g)) (x # unique ys)))
                          (groupby (rows (apply_filter sel df)))\<rparr>
      else Inl KeyError)"
proof -
  have m: "map snd (map (\<lambda>k. (avg k, k)) ks) = ks" for ks :: "string list"
    by (simp add: comp_def)
  have f: "map fst (map (\<lambda>k. (avg k, k)) ks) = map avg ks" for ks :: "string list"
    by (simp add: comp_def)
  have r: "map (\<lambda>(n, k). mean nm (column_of k g)) (map (\<lambda>k. (avg k, k)) ks)
             = map (\<lambda>k. mean nm (column_of k g)) ks"
    for ks :: "string list" and g :: "('a, 'b) row list" and nm
    by (simp add: comp_def)
  show ?thesis
    unfolding aggregate_def Let_def call_kwargs_avg agg_def m f r
    by (auto simp: apply_filter_columns apply_filter_id_number apply_filter_numerics set_unique
        list_all_iff)
qed

lemma map_of_zip_avg:
  "k \<in> set ks \<Longrightarrow> map_of (zip (map avg ks) (map F ks)) (avg k) = Some (F k)"
  by (induction ks) (auto simp: avg_inj)

lemma dropna_filter: "dropna cs = map the (filter (\<lambda>c. c \<noteq> None) cs)"
  by (induction cs rule: dropna.induct) simp_all

lemma mean_present_cells:
  "mean nm (column_of k g) =
     (if present_cells k g = [] then None
      else map_option (\<lambda>s. div64 nm s (length (present_cells k g))) (sum64 nm (present_cells k g)))"
  by (simp add: mean_def Let_def dropna_filter present_cells_def column_of_def
      split: option.splits)

lemma aggregate_rows:
  assumes "aggregate df sel x ys = Inr t" and "(c, vals) \<in> set (trows t)"
  shows "vals = map (\<lambda>k. mean (numerics df) (column_of k (rows_sharing c sel df))) (x # unique ys)"
proof -
  from assms(1) have t: "trows t = map (\<lambda>(c, g). (c, map (\<lambda>k. mean (numerics df) (column_of k g)) (x # unique ys)))
                          (groupby (kept_rows sel df))"
    by (auto simp: aggregate_eq apply_filter_rows split: if_splits)
  with assms(2) obtain g where g: "(c, g) \<in> set (groupby (kept_rows sel df))"
    and v: "vals = map (\<lambda>k. mean (numerics df) (column_of k g)) (x # unique ys)"
    by auto
  from g have "g = rows_sharing c sel df"
    unfolding rows_sharing_def by (rule groupby_group)
  with v show ?thesis by simp
qed

lemma aggregate_columns:
  "aggregate df sel x ys = Inr t \<Longrightarrow> tcolumns t = map avg (x # unique ys)"
  by (auto simp: aggregate_eq split: if_splits)

lemma aggregate_keys:
  "aggregate df sel x ys = Inr t \<Longrightarrow> map fst (trows t) = map fst (groupby (kept_rows sel df))"
  by (auto simp: aggregate_eq apply_filter_rows comp_def case_prod_unfold split: if_splits)

lemma rows_sharing_nonempty:
  "rows_sharing c sel df \<noteq> [] \<longleftrightarrow> Some c \<in> fst ` set (kept_rows sel df)"
  by (force simp: rows_sharing_def filter_empty_conv image_iff)

lemma aggregate_countries:
  assumes "aggregate df sel x ys = Inr t"
  shows "distinct (map fst (trows t))"
    and "sorted (map fst (trows t))"
    and "set (map fst (trows t)) = {c. Some c \<in> fst ` set (kept_rows sel df)}"
proof -
  note k = aggregate_keys [OF assms]
  show "distinct (map fst (trows t))"
    by (simp only: k groupby_keys_distinct)
  show "sorted (map fst (trows t))"
    by (simp only: k groupby_keys_sorted)
  show "set (map fst (trows t)) = {c. Some c \<in> fst ` set (kept_rows sel df)}"
    by (simp only: k set_map groupby_keys_set)
qed

lemma example_columns:
  "''reading_score'' \<in> set indicator_keys" "''home_books'' \<in> set indicator_keys"
  "''teaching_years'' \<in> set indicator_keys"
  by (simp_all add: indicator_keys_def INDICATOR_MAPPING_def)

lemma example_numerics:
  "numerics example_df = exact_numerics" "numerics example_null_df = exact_numerics"
  "id_number example_df = None" "id_number example_null_df = None"
  "columns example_df = indicator_keys" "columns example_null_df = indicator_keys"
  by (simp_all add: example_df_def example_null_df_def)

lemma example_groupby:
  "groupby (rows example_df) =
     [(''A'', [(Some ''A'', map_of [(''reading_score'', 10), (''home_books'', 1), (''teaching_years'', 2)]),
               (Some ''A'', map_of [(''reading_score'', 20), (''teaching_years'', 3)])]),
      (''B'', [(Some ''B'', map_of [(''reading_score'', 5), (''home_books'', 4), (''teaching_years'', 7)])])]"
  by (simp add: groupby_def place_row_def example_df_def)

lemma example_null_groupby:
  "groupby (rows example_null_df) = groupby (rows example_df)"
  by (simp add: groupby_def place_row_def example_df_def example_null_df_def)

lemma example_groupby_A:
  "groupby (kept_rows [Some ''A''] example_df) =
     [(''A'', [(Some ''A'', map_of [(''reading_score'', 10), (''home_books'', 1), (''teaching_years'', 2)]),
               (Some ''A'', map_of [(''reading_score'', 20), (''teaching_years'', 3)])])]"
  by (simp add: groupby_def place_row_def example_df_def kept_rows_def)

lemma example_kept_none: "kept_rows [Some ''Z''] example_df = []"
  by (simp add: example_df_def kept_rows_def)

lemma example_aggregate:
  "aggregate example_df [] ''reading_score'' [''home_books''] = Inr example_agg"
  by (simp add: aggregate_eq example_columns example_numerics apply_filter_def example_groupby
      unique_def example_agg_def avg_def mean_def column_of_def exact_numerics_def)

lemma example_null_aggregate:
  "aggregate example_null_df [] ''reading_score'' [''home_books''] = Inr example_agg"
  by (simp add: aggregate_eq example_columns example_numerics apply_filter_def
      example_null_groupby example_groupby
      unique_def example_agg_def avg_def mean_def column_of_def exact_numerics_def)

lemma example_aggregate_A:
  "aggregate example_df [Some ''A''] ''reading_score'' [''home_books''] = Inr example_agg_A"
  by (simp add: aggregate_eq example_columns example_numerics apply_filter_rows example_groupby_A
      unique_def example_agg_A_def avg_def mean_def column_of_def exact_numerics_def)

lemma example_aggregate_none:
  "aggregate example_df [Some ''Z''] ''reading_score'' [''home_books'']
     = Inr \<lparr>tcolumns = [''avg_reading_score'', ''avg_home_books''], tid_number = None,
            tnumerics = exact_numerics, trows = []\<rparr>"
  by (simp add: aggregate_eq example_columns example_numerics apply_filter_rows example_kept_none
      groupby_def unique_def avg_def)

lemma example_countries: "unique (map fst (rows example_df)) = [Some ''B'', Some ''A'']"
  by (simp add: unique_def example_df_def)

lemma example_null_countries:
  "unique (map fst (rows example_null_df)) = [Some ''B'', None, Some ''A'']"
  by (simp add: unique_def example_null_df_def)

lemma example_rows_sharing_A:
  "rows_sharing ''A'' [Some ''A''] example_df =
     [(Some ''A'', map_of [(''reading_score'', 10), (''home_books'', 1), (''teaching_years'', 2)]),
      (Some ''A'', map_of [(''reading_score'', 20), (''teaching_years'', 3)])]"
  "rows_sharing ''A'' [] example_df =
     [(Some ''A'', map_of [(''reading_score'', 10), (''home_books'', 1), (''teaching_years'', 2)]),
      (Some ''A'', map_of [(''reading_score'', 20), (''teaching_years'', 3)])]"
  by (simp_all add: rows_sharing_def kept_rows_def example_df_def)

text \<open>
  Claim C1, as amended. Whenever the aggregation step yields a table, its rows are, in
  the order of the countries, the countries \<open>c\<close> that at least one row kept by the filter
  has (a row being kept when the selection is empty or holds its country). For every row
  \<open>(c, vals)\<close> of the table and every selected key \<open>k\<close> (the X key or one of the Y keys),
  the cell of column \<open>avg_k\<close> is determined by the cells of column \<open>k\<close> that have a value,
  taken in table order over exactly the rows that share the country \<open>c\<close> after filtering:
  it is missing when there is no such cell or when their float64 sum is NaN, and is
  otherwise that float64 sum divided in float64 by the number of those cells. The row has
  one cell per column and the columns are the \<open>avg_\<close> names of the selected keys, so every
  value of the table is covered.
\<close>

theorem aggregated_values_are_group_means:
  assumes "aggregate df selected_countries x_axis y_axes = Inr agg_df"
  shows "map fst (trows agg_df)
           = sorted_list_of_set {c. rows_sharing c selected_countries df \<noteq> []}
         \<and> (\<forall>c vals k. (c, vals) \<in> set (trows agg_df) \<longrightarrow> k \<in> set (x_axis # y_axes) \<longrightarrow>
               cell_at agg_df vals (avg k)
                 = Some (if present_cells k (rows_sharing c selected_countries df) = [] then None
                         else map_option
                                (\<lambda>s. div64 (numerics df) s
                                       (length (present_cells k (rows_sharing c selected_countries df))))
                                (sum64 (numerics df)
                                   (present_cells k (rows_sharing c selected_countries df)))))
         \<and> (\<forall>c vals. (c, vals) \<in> set (trows agg_df) \<longrightarrow> length vals = length (tcolumns agg_df))
         \<and> set (tcolumns agg_df) = avg ` set (x_axis # y_axes)"
proof -
  note cs = aggregate_countries [OF assms]
  have cols: "tcolumns agg_df = map avg (x_axis # unique y_axes)"
    using assms by (rule aggregate_columns)
  have S: "{c. rows_sharing c selected_countries df \<noteq> []}
             = set (map fst (trows agg_df))"
    unfolding cs(3) by (simp add: rows_sharing_nonempty)
  have order: "map fst (trows agg_df)
           = sorted_list_of_set {c. rows_sharing c selected_countries df \<noteq> []}"
    unfolding S
    by (rule sorted_distinct_set_unique [OF cs(2) cs(1)])
      (simp_all add: cs(1) del: set_map)
  have cell: "cell_at agg_df vals (avg k)
                 = Some (if present_cells k (rows_sharing c selected_countries df) = [] then None
                         else map_option
                                (\<lambda>s. div64 (numerics df) s
                                       (length (present_cells k (rows_sharing c selected_countries df))))
                                (sum64 (numerics df)
                                   (present_cells k (rows_sharing c selected_countries df))))"
    if r: "(c, vals) \<in> set (trows agg_df)" and k: "k \<in> set (x_axis # y_axes)" for c vals k
  proof -
    have k': "k \<in> set (x_axis # unique y_axes)"
      using k by (simp add: set_unique)
    have "cell_at agg_df vals (avg k)
            = Some (mean (numerics df) (column_of k (rows_sharing c selected_countries df)))"
      unfolding cell_at_def cols aggregate_rows [OF assms r] by (rule map_of_zip_avg [OF k'])
    then show ?thesis
      by (simp only: mean_present_cells)
  qed
  have len: "length vals = length (tcolumns agg_df)" if r: "(c, vals) \<in> set (trows agg_df)" for c vals
    by (simp add: cols aggregate_rows [OF assms r])
  have names: "set (tcolumns agg_df) = avg ` set (x_axis # y_axes)"
    by (simp add: cols set_unique)
  from order cell len names show ?thesis by blast
qed

theorem aggregated_values_are_group_means_witness:
  "aggregate example_df [Some ''A''] ''reading_score'' [''home_books''] = Inr example_agg_A
   \<and> trows example_agg_A = [(''A'', [Some 15, Some 1])]
   \<and> sorted_list_of_set {c. rows_sharing c [Some ''A''] example_df \<noteq> []} = [''A'']
   \<and> present_cells ''reading_score'' (rows_sharing ''A'' [Some ''A''] example_df) = [10, 20]
   \<and> cell_at example_agg_A [Some 15, Some 1] (avg ''reading_score'')
       = Some (map_option (\<lambda>s. div64 exact_numerics s (length [10 :: rat, 20])) (sum64 exact_numerics [10, 20]))
   \<and> cell_at example_agg_A [Some 15, Some 1] (avg ''reading_score'') = Some (Some 15)
   \<and> present_cells ''home_books'' (rows_sharing ''A'' [Some ''A''] example_df) = [1]
   \<and> cell_at example_agg_A [Some 15, Some 1] (avg ''home_books'')
       = Some (map_option (\<lambda>s. div64 exact_numerics s (length [1 :: rat])) (sum64 exact_numerics [1]))
   \<and> cell_at example_agg_A [Some 15, Some 1] (avg ''home_books'') = Some (Some 1)"
proof -
  note t = aggregated_values_are_group_means [OF example_aggregate_A]
  have rows: "trows example_agg_A = [(''A'', [Some 15, Some 1])]"
    by (simp add: example_agg_A_def)
  have m: "(''A'', [Some 15, Some 1]) \<in> set (trows example_agg_A)"
    by (simp add: rows)
  from t have "map fst (trows example_agg_A)
                 = sorted_list_of_set {c. rows_sharing c [Some ''A''] example_df \<noteq> []}"
    by (rule conjunct1)
  then have order: "sorted_list_of_set {c. rows_sharing c [Some ''A''] example_df \<noteq> []} = [''A'']"
    by (simp add: rows)
  have p1: "present_cells ''reading_score'' (rows_sharing ''A'' [Some ''A''] example_df) = [10, 20]"
    and p2: "present_cells ''home_books'' (rows_sharing ''A'' [Some ''A''] example_df) = [1]"
    by (simp_all add: present_cells_def example_rows_sharing_A)
  have k1: "''reading_score'' \<in> set (''reading_score'' # [''home_books''])"
    and k2: "''home_books'' \<in> set (''reading_score'' # [''home_books''])"
    by simp_all
  from t m k1 have "cell_at example_agg_A [Some 15, Some 1] (avg ''reading_score'')
      = Some (if present_cells ''reading_score'' (rows_sharing ''A'' [Some ''A''] example_df) = [] then None
              else map_option
                     (\<lambda>s. div64 (numerics example_df) s
                            (length (present_cells ''reading_score'' (rows_sharing ''A'' [Some ''A''] example_df))))
                     (sum64 (numerics example_df)
                        (present_cells ''reading_score'' (rows_sharing ''A'' [Some ''A''] example_df))))"
    by blast
  then have c1: "cell_at example_agg_A [Some 15, Some 1] (avg ''reading_score'')
       = Some (map_option (\<lambda>s. div64 exact_numerics s (length [10 :: rat, 20])) (sum64 exact_numerics [10, 20]))"
    by (simp only: p1 example_numerics list.distinct if_False)
  from t m k2 have "cell_at example_agg_A [Some 15, Some 1] (avg ''home_books'')
      = Some (if present_cells ''home_books'' (rows_sharing ''A'' [Some ''A''] example_df) = [] then None
              else map_option
                     (\<lambda>s. div64 (numerics example_df) s
                            (length (present_cells ''home_books'' (rows_sharing ''A'' [Some ''A''] example_df))))
                     (sum64 (numerics example_df)
                        (present_cells ''home_books'' (rows_sharing ''A'' [Some ''A''] example_df))))"
    by blast
  then have c2: "cell_at example_agg_A [Some 15, Some 1] (avg ''home_books'')
       = Some (map_option (\<lambda>s. div64 exact_numerics s (length [1 :: rat])) (sum64 exact_numerics [1]))"
    by (simp only: p2 example_numerics list.distinct if_False)
  have v1: "cell_at example_agg_A [Some 15, Some 1] (avg ''reading_score'') = Some (Some 15)"
    unfolding c1 by (simp add: exact_numerics_def)
  have v2: "cell_at example_agg_A [Some 15, Some 1] (avg ''home_books'') = Some (Some 1)"
    unfolding c2 by (simp add: exact_numerics_def)
  from example_aggregate_A rows order p1 c1 v1 p2 c2 v2 show ?thesis
    by (intro conjI)
qed

text \<open>
  Claim C1 as stated fails: on the small dataset the two rows of country \<open>A\<close> hold the
  \<open>home_books\<close> cells 1 and missing, and the aggregated value is 1, the sum of the one cell
  that has a value over the count 1; it is not that sum over the number 2 of the rows
  sharing the country, and the column over those rows is not a list of numbers that has
  an arithmetic mean.
\<close>

theorem mean_leaves_missing_cells_out:
  "aggregate example_df [] ''reading_score'' [''home_books''] = Inr example_agg
   \<and> trows example_agg = [(''A'', [Some 15, Some 1]), (''B'', [Some 5, Some 4])]
   \<and> map (\<lambda>r. snd r ''home_books'') (rows_sharing ''A'' [] example_df) = [Some 1, None]
   \<and> length (rows_sharing ''A'' [] example_df) = 2
   \<and> cell_at example_agg [Some 15, Some 1] (avg ''home_books'') = Some (Some 1)
   \<and> cell_at example_agg [Some 15, Some 1] (avg ''home_books'')
       \<noteq> Some (Some (sum_list (present_cells ''home_books'' (rows_sharing ''A'' [] example_df))
                       / of_nat (length (rows_sharing ''A'' [] example_df))))
   \<and> \<not> (\<exists>vs. map (\<lambda>r. snd r ''home_books'') (rows_sharing ''A'' [] example_df) = map Some vs
            \<and> cell_at example_agg [Some 15, Some 1] (avg ''home_books'')
                = Some (Some (sum_list vs / of_nat (length vs))))"
proof -
  have c: "map (\<lambda>r. snd r ''home_books'') (rows_sharing ''A'' [] example_df) = [Some 1, None]"
    by (simp add: example_rows_sharing_A)
  have l: "length (rows_sharing ''A'' [] example_df) = 2"
    by (simp add: example_rows_sharing_A)
  have p: "present_cells ''home_books'' (rows_sharing ''A'' [] example_df) = [1]"
    by (simp add: present_cells_def example_rows_sharing_A)
  have v: "cell_at example_agg [Some 15, Some 1] (avg ''home_books'') = Some (Some 1)"
    by (simp add: example_agg_def cell_at_def avg_def)
  have r: "trows example_agg = [(''A'', [Some 15, Some 1]), (''B'', [Some 5, Some 4])]"
    by (simp add: example_agg_def)
  have d: "cell_at example_agg [Some 15, Some 1] (avg ''home_books'')
       \<noteq> Some (Some (sum_list (present_cells ''home_books'' (rows_sharing ''A'' [] example_df))
                       / of_nat (length (rows_sharing ''A'' [] example_df))))"
    unfolding v p l by simp
  have n: "\<not> (\<exists>vs. map (\<lambda>r. snd r ''home_books'') (rows_sharing ''A'' [] example_df) = map Some vs
            \<and> cell_at example_agg [Some 15, Some 1] (avg ''home_books'')
                = Some (Some (sum_list vs / of_nat (length vs))))"
    unfolding c by (auto simp: map_eq_Cons_conv)
  from example_aggregate r c l v d n show ?thesis
    by (intro conjI)
qed

text \<open>
  Claim C2, as amended. The aggregated table has exactly one row per distinct country
  value, other than the missing value, that a row kept by the filter has: the countries
  of its rows are pairwise different, they are the countries of the kept rows, and so
  the number of rows is the number of those countries; when the filter keeps no row, or
  only rows whose country is missing, the table has no row.
\<close>

theorem one_row_per_country:
  assumes "aggregate df selected_countries x_axis y_axes = Inr agg_df"
  shows "distinct (map fst (trows agg_df))
         \<and> set (map fst (trows agg_df)) = {c. Some c \<in> fst ` set (kept_rows selected_countries df)}
         \<and> length (trows agg_df) = card {c. Some c \<in> fst ` set (kept_rows selected_countries df)}
         \<and> ((\<forall>r \<in> set (kept_rows selected_countries df). fst r = None) \<longrightarrow> trows agg_df = [])"
proof -
  note cs = aggregate_countries [OF assms]
  have "length (trows agg_df) = length (map fst (trows agg_df))"
    by simp
  also have "\<dots> = card (set (map fst (trows agg_df)))"
    using cs(1) by (simp only: distinct_card)
  finally have n: "length (trows agg_df) = card {c. Some c \<in> fst ` set (kept_rows selected_countries df)}"
    by (simp only: cs(3))
  have e: "trows agg_df = []" if "\<forall>r \<in> set (kept_rows selected_countries df). fst r = None"
  proof -
    from that have "{c. Some c \<in> fst ` set (kept_rows selected_countries df)} = {}"
      by force
    with n show ?thesis by simp
  qed
  from cs(1) cs(3) n e show ?thesis by blast
qed

theorem one_row_per_country_witness:
  "aggregate example_df [Some ''A''] ''reading_score'' [''home_books''] = Inr example_agg_A
   \<and> map fst (trows example_agg_A) = [''A'']
   \<and> {c. Some c \<in> fst ` set (kept_rows [Some ''A''] example_df)} = {''A''}
   \<and> length (trows example_agg_A) = card {''A''}
   \<and> kept_rows [Some ''Z''] example_df = []
   \<and> aggregate example_df [Some ''Z''] ''reading_score'' [''home_books'']
       = Inr \<lparr>tcolumns = [''avg_reading_score'', ''avg_home_books''], tid_number = None,
              tnumerics = exact_numerics, trows = []\<rparr>"
proof -
  note a = one_row_per_country [OF example_aggregate_A]
  note z = one_row_per_country [OF example_aggregate_none]
  have m: "map fst (trows example_agg_A) = [''A'']"
    by (simp add: example_agg_A_def)
  from a have "set (map fst (trows example_agg_A))
                 = {c. Some c \<in> fst ` set (kept_rows [Some ''A''] example_df)}"
    by blast
  then have s: "{c. Some c \<in> fst ` set (kept_rows [Some ''A''] example_df)} = {''A''}"
    unfolding m by simp
  from a have "length (trows example_agg_A)
                 = card {c. Some c \<in> fst ` set (kept_rows [Some ''A''] example_df)}"
    by blast
  then have n: "length (trows example_agg_A) = card {''A''}"
    unfolding s .
  have "\<forall>r \<in> set (kept_rows [Some ''Z''] example_df). fst r = None"
    by (simp add: example_kept_none)
  with z have "trows \<lparr>tcolumns = [''avg_reading_score'', ''avg_home_books''],
                tid_number = (None :: (string \<Rightarrow> rat) option), tnumerics = exact_numerics,
                trows = []\<rparr> = []"
    by blast
  from example_aggregate_A m s n example_kept_none example_aggregate_none show ?thesis
    by (intro conjI)
qed

text \<open>
  Claim C2 as stated fails: the dataset with a respondent whose country is missing has
  three distinct country values (the country filter offers all three), and with the
  empty selection, which keeps every row, the aggregated table has two rows.
\<close>

theorem missing_country_has_no_row:
  "aggregate example_null_df [] ''reading_score'' [''home_books''] = Inr example_agg
   \<and> unique (map fst (rows example_null_df)) = [Some ''B'', None, Some ''A'']
   \<and> length (unique (map fst (rows example_null_df))) = 3
   \<and> map fst (trows example_agg) = [''A'', ''B'']
   \<and> length (trows example_agg) = 2"
  by (simp add: example_null_aggregate example_null_countries) (simp add: example_agg_def)

lemma apply_filter_all: "apply_filter (unique (map fst (rows df))) df = df"
proof -
  have "filter (\<lambda>r. isin (fst r) (unique (map fst (rows df)))) (rows df) = rows df"
    by (simp add: isin_def set_unique)
  then show ?thesis by (simp add: apply_filter_def)
qed

text \<open>
  Claim C3. Running the aggregation step with an empty country selection gives the same
  result as running it with the selection of all distinct country values of the loaded
  dataset.
\<close>

theorem empty_filter_is_all_countries:
  "aggregate df [] x_axis y_axes = aggregate df (unique (map fst (rows df))) x_axis y_axes"
proof -
  have "apply_filter [] df = df"
    by (simp add: apply_filter_def)
  then show ?thesis
    by (simp add: aggregate_def apply_filter_all)
qed

theorem empty_filter_is_all_countries_witness:
  "aggregate example_df [] ''reading_score'' [''home_books'']
     = aggregate example_df [Some ''B'', Some ''A''] ''reading_score'' [''home_books'']
   \<and> aggregate example_df [Some ''B'', Some ''A''] ''reading_score'' [''home_books''] = Inr example_agg"
  using empty_filter_is_all_countries [of example_df "''reading_score''" "[''home_books'']"]
  by (simp add: example_countries example_aggregate)

lemma main_TypeError:
  "x \<in> set ys \<Longrightarrow> main df x ys sel = (Title # sidebar df, Some TypeError)"
  by (simp add: main_def aggregate_eq)

text \<open>
  Claim C6. When the X key is also among the Y keys, the keyword \<open>avg_<key>\<close> is passed
  twice, the aggregation call raises \<open>TypeError\<close>, and the run ends with nothing but the
  title and the sidebar on the page. When the X key is not among the Y keys and the
  dataset has the selected columns, the aggregation call returns a table.
\<close>

theorem x_among_y_fails:
  "(x_axis \<in> set y_axes \<longrightarrow>
      aggregate df selected_countries x_axis y_axes = Inl TypeError
      \<and> main df x_axis y_axes selected_countries = (Title # sidebar df, Some TypeError))
   \<and> (x_axis \<notin> set y_axes \<and> set (x_axis # y_axes) \<subseteq> set (columns df) \<longrightarrow>
      (\<exists>agg_df. aggregate df selected_countries x_axis y_axes = Inr agg_df))"
  by (simp add: aggregate_eq main_TypeError)

theorem x_among_y_fails_witness:
  "''home_books'' \<in> set [''reading_score'', ''home_books'']
   \<and> aggregate example_df [] ''home_books'' [''reading_score'', ''home_books''] = Inl TypeError
   \<and> snd (main example_df ''home_books'' [''reading_score'', ''home_books''] []) = Some TypeError
   \<and> ''reading_score'' \<notin> set [''home_books'']
   \<and> set [''reading_score'', ''home_books''] \<subseteq> set (columns example_df)
   \<and> aggregate example_df [] ''reading_score'' [''home_books''] = Inr example_agg"
proof -
  have c: "set [''reading_score'', ''home_books''] \<subseteq> set (columns example_df)"
    by (simp add: example_numerics example_columns)
  from x_among_y_fails [of "''home_books''" "[''reading_score'', ''home_books'']" example_df "[]"]
  have "aggregate example_df [] ''home_books'' [''reading_score'', ''home_books''] = Inl TypeError
        \<and> snd (main example_df ''home_books'' [''reading_score'', ''home_books''] []) = Some TypeError"
    by simp
  moreover
  from x_among_y_fails [of "''reading_score''" "[''home_books'']" example_df "[]"] c
  have "\<exists>agg_df. aggregate example_df [] ''reading_score'' [''home_books''] = Inr agg_df"
    by simp
  ultimately show ?thesis using c example_aggregate by simp
qed

subsection \<open>The page\<close>

text \<open>
  Claim C10. Whatever the country selection, the page has one country filter, and its
  option list is the list of distinct country values of the loaded, unfiltered dataset.
\<close>

theorem country_options_from_loaded_data:
  "[opts. CountryMultiselect opts \<leftarrow> fst (main df x_axis y_axes selected_countries)]
     = [unique (map fst (rows df))]
   \<and> set (unique (map fst (rows df))) = fst ` set (rows df)
   \<and> distinct (unique (map fst (rows df)))"
proof -
  have "[opts. CountryMultiselect opts \<leftarrow> fst (main df x_axis y_axes selected_countries)]
          = [unique (map fst (rows df))]"
    by (simp add: main_def sidebar_def Let_def split: sum.splits)
  then show ?thesis
    by (simp add: set_unique distinct_unique)
qed

theorem country_options_from_loaded_data_witness:
  "[opts. CountryMultiselect opts \<leftarrow> fst (main example_df ''reading_score'' [''home_books''] [Some ''A''])]
     = [[Some ''B'', Some ''A'']]
   \<and> fst ` set (rows example_df) = {Some ''B'', Some ''A''}"
  using country_options_from_loaded_data
    [of example_df "''reading_score''" "[''home_books'']" "[Some ''A'']"]
  by (simp add: example_countries)

lemma label_ok: "k \<in> set indicator_keys \<Longrightarrow> \<exists>l. label k = Inr l"
proof -
  assume "k \<in> set indicator_keys"
  then have "map_of INDICATOR_MAPPING k \<noteq> None"
    by (simp only: indicator_keys_def set_map map_of_eq_None_iff not_not)
  then show ?thesis by (auto simp: label_def)
qed

text \<open>
  Claim C7. With an empty Y selection (the X key being a catalogue key and a column of
  the dataset), the run ends with \<open>IndexError\<close>, raised by \<open>y_axes[0]\<close> when the primary
  vertical axis is titled; the page then holds the title, the sidebar and the headline,
  and no chart.
\<close>

theorem empty_y_selection_fails:
  assumes "x_axis \<in> set indicator_keys" and "x_axis \<in> set (columns df)"
  shows "snd (main df x_axis [] selected_countries) = Some IndexError
         \<and> first_key [] = Inl IndexError
         \<and> (\<exists>h. fst (main df x_axis [] selected_countries) = Title # sidebar df @ [Headline h])
         \<and> [fig. PlotlyChart fig \<leftarrow> fst (main df x_axis [] selected_countries)] = []"
proof -
  from assms(1) obtain lx where lx: "label x_axis = Inr lx"
    using label_ok by blast
  obtain agg_df where a: "aggregate df selected_countries x_axis [] = Inr agg_df"
    and c: "tcolumns agg_df = [avg x_axis]"
    using assms(2) by (simp add: aggregate_eq unique_def)
  have h: "headline x_axis [] = Inr ([22269, 23478, 47, 22320, 21306, 32500, 24230, 20998, 26512, 65306]
                    @ lx @ [32, 118, 115, 32])"
    by (simp add: headline_def lx)
  have f: "first_key [] = Inl IndexError"
    by (simp add: first_key_def)
  have b: "build_figure agg_df x_axis [] = Inl IndexError"
    by (simp add: build_figure_def lx px_scatter_def c multi_y_def axis_titles_def f)
  have m: "main df x_axis [] selected_countries
             = (Title # sidebar df @ [Headline ([22269, 23478, 47, 22320, 21306, 32500, 24230, 20998, 26512, 65306]
                    @ lx @ [32, 118, 115, 32])], Some IndexError)"
    by (simp add: main_def a h b)
  show ?thesis
    by (simp add: m f sidebar_def)
qed

theorem empty_y_selection_fails_witness:
  "''reading_score'' \<in> set indicator_keys \<and> ''reading_score'' \<in> set (columns example_df)
   \<and> snd (main example_df ''reading_score'' [] []) = Some IndexError
   \<and> [fig. PlotlyChart fig \<leftarrow> fst (main example_df ''reading_score'' [] [])] = []"
proof -
  have h1: "''reading_score'' \<in> set indicator_keys"
    by (rule example_columns)
  have h2: "''reading_score'' \<in> set (columns example_df)"
    by (simp add: example_numerics example_columns)
  from empty_y_selection_fails [OF h1 h2, of "[]"] h1 h2 show ?thesis
    by blast
qed

subsection \<open>The figure\<close>

lemma label_the: "k \<in> set indicator_keys \<Longrightarrow> label k = Inr (the (map_of INDICATOR_MAPPING k))"
  using label_ok [of k] by (auto simp: label_def split: option.splits)

lemma add_scatter_loop_ok:
  assumes "avg x \<in> set (tcolumns t)"
    and "\<forall>y \<in> set rest. avg y \<in> set (tcolumns t) \<and> y \<in> set indicator_keys"
  shows "add_scatter_loop t x i rest fig
           = Inr (fig\<lparr>added := added fig @ map (\<lambda>(j, y). overlay t x j y) (zip [i..<i + length rest] rest)\<rparr>)"
  using assms(2)
proof (induction rest arbitrary: i fig)
  case Nil
  show ?case by simp
next
  case (Cons y rest)
  have "[i..<Suc (i + length rest)] = i # [Suc i..<Suc (i + length rest)]"
    by (rule upt_conv_Cons) simp
  then have u: "[i..<i + length (y # rest)] = i # [Suc i..<Suc i + length rest]"
    by (simp only: length_Cons add_Suc_right add_Suc)
  from Cons.prems have y: "avg y \<in> set (tcolumns t)" "y \<in> set indicator_keys"
    and r: "\<forall>y \<in> set rest. avg y \<in> set (tcolumns t) \<and> y \<in> set indicator_keys"
    by simp_all
  show ?case
    unfolding u
    by (simp add: series_def assms(1) y label_the Cons.IH [OF r] add_scatter_def overlay_def)
qed

lemma str_nat_small: "n < 10 \<Longrightarrow> str_nat n = [digit n]"
  by (subst str_nat.simps) simp

lemma str_nat_big: "\<not> n < 10 \<Longrightarrow> str_nat n = str_nat (n div 10) @ [digit (n mod 10)]"
  by (subst str_nat.simps) simp

lemma str_nat_nonempty: "str_nat n \<noteq> []"
  by (cases "n < 10") (simp_all add: str_nat_small str_nat_big)

lemma str_nat_length:
  assumes "\<not> n < 10"
  shows "2 \<le> length (str_nat n)"
proof -
  have "length (str_nat (n div 10)) \<noteq> 0"
    using str_nat_nonempty [of "n div 10"] by (simp only: length_0_conv not_False_eq_True)
  then have "1 \<le> length (str_nat (n div 10))"
    by arith
  moreover have "length (str_nat n) = length (str_nat (n div 10)) + 1"
    by (subst str_nat_big [OF assms]) simp
  ultimately show ?thesis by arith
qed

lemma digit_inj: "a < 10 \<Longrightarrow> b < 10 \<Longrightarrow> digit a = digit b \<longleftrightarrow> a = b"
  unfolding digit_def by (subst nth_eq_iff_index_eq) simp_all

lemma str_nat_inj: "str_nat m = str_nat n \<Longrightarrow> m = n"
proof (induction m arbitrary: n rule: str_nat.induct)
  case (1 m)
  show ?case
  proof (cases "m < 10")
    case True
    then have sm: "str_nat m = [digit m]" by (rule str_nat_small)
    show ?thesis
    proof (cases "n < 10")
      case n: True
      then have "str_nat n = [digit n]" by (rule str_nat_small)
      with sm "1.prems" have "digit m = digit n" by simp
      with True n show ?thesis by (simp add: digit_inj)
    next
      case False
      then have "2 \<le> length (str_nat n)" by (rule str_nat_length)
      with sm "1.prems" show ?thesis by simp
    qed
  next
    case False
    then have sm: "str_nat m = str_nat (m div 10) @ [digit (m mod 10)]"
      by (rule str_nat_big)
    show ?thesis
    proof (cases "n < 10")
      case True
      then have "str_nat n = [digit n]" by (rule str_nat_small)
      moreover from False have "2 \<le> length (str_nat m)" by (rule str_nat_length)
      ultimately show ?thesis using "1.prems" by simp
    next
      case n: False
      then have "str_nat n = str_nat (n div 10) @ [digit (n mod 10)]"
        by (rule str_nat_big)
      with sm "1.prems" have e: "str_nat (m div 10) = str_nat (n div 10)"
        and c: "digit (m mod 10) = digit (n mod 10)"
        by simp_all
      from "1.IH" [OF False e] have d: "m div 10 = n div 10" .
      from c have "m mod 10 = n mod 10" by (simp add: digit_inj)
      with d show ?thesis by (metis div_mult_mod_eq)
    qed
  qed
qed

lemma str_nat_2: "str_nat 2 = ''2''"
  by (simp add: str_nat_small digit_def)

lemma str_nat_3: "str_nat 3 = ''3''"
  by (simp add: str_nat_small digit_def)

lemma build_figure_ok:
  assumes x: "avg x \<in> set (tcolumns t)"
    and ys: "\<forall>y \<in> set ys. avg y \<in> set (tcolumns t)"
    and keys: "set (x # ys) \<subseteq> set indicator_keys"
    and ne: "ys \<noteq> []"
  shows "build_figure t x ys =
           Inr \<lparr>px_data = melt t (avg x) (map avg ys),
                added = map (\<lambda>(j, y). overlay t x j y) (zip [0..<length (tl ys)] (tl ys)),
                layout_axes =
                  [(''xaxis'', title_axis ([24179, 22343, 32] @ the (map_of INDICATOR_MAPPING x))),
                   (''yaxis'', title_axis (the (map_of INDICATOR_MAPPING (hd ys))))]
                  @ (if length ys > 1
                     then [(''yaxis2'', \<lparr>axis_title = the (map_of INDICATOR_MAPPING (ys ! 1)),
                                          overlaying = Some ''y'', side = Some ''right''\<rparr>)]
                     else [])\<rparr>"
proof -
  from ne obtain y0 rest where s: "ys = y0 # rest" by (cases ys) auto
  have lx: "label x = Inr (the (map_of INDICATOR_MAPPING x))"
    using keys by (simp add: label_the)
  have ly: "label y0 = Inr (the (map_of INDICATOR_MAPPING y0))"
    using keys by (simp add: label_the s)
  have px: "px_scatter t (avg x) (map avg ys) l =
              Inr \<lparr>px_data = melt t (avg x) (map avg ys), added = [],
                    layout_axes = [(''xaxis'', title_axis l),
                                   (''yaxis'', title_axis [25351, 26631, 24179, 22343, 20540])]\<rparr>" for l
    using x ys by (simp add: px_scatter_def list_all_iff title_axis_def)
  have r: "\<forall>y \<in> set rest. avg y \<in> set (tcolumns t) \<and> y \<in> set indicator_keys"
    using ys keys by (auto simp: s)
  define F0 :: "('a, 'b) figure" where
    "F0 = \<lparr>px_data = melt t (avg x) (map avg ys), added = [],
            layout_axes = [(''xaxis'', title_axis ([24179, 22343, 32] @ the (map_of INDICATOR_MAPPING x))),
                           (''yaxis'', title_axis [25351, 26631, 24179, 22343, 20540])]\<rparr>"
  have bf: "build_figure t x ys =
              (case multi_y t x ys F0 of Inl e \<Rightarrow> Inl e | Inr fig' \<Rightarrow> axis_titles x ys fig')"
    by (simp only: build_figure_def lx px sum.case F0_def)
  have at: "axis_titles x ys fig =
              Inr (set_title (set_title fig ''xaxis'' ([24179, 22343, 32] @ the (map_of INDICATOR_MAPPING x)))
                     ''yaxis'' (the (map_of INDICATOR_MAPPING y0)))" for fig :: "('a, 'b) figure"
    by (simp add: axis_titles_def lx first_key_def s ly)
  show ?thesis
  proof (cases rest)
    case Nil
    have m: "multi_y t x ys F0 = Inr F0"
      by (simp add: multi_y_def s Nil)
    show ?thesis
      unfolding bf m sum.case at
      by (simp add: F0_def set_title_def update_layout_def title_axis_def s Nil)
  next
    case (Cons y1 rest')
    have l1: "label y1 = Inr (the (map_of INDICATOR_MAPPING y1))"
      using keys by (simp add: label_the s Cons)
    have loop: "add_scatter_loop t x 0 rest F0
                 = Inr (F0\<lparr>added := added F0 @ map (\<lambda>(j, y). overlay t x j y) (zip [0..<length rest] rest)\<rparr>)"
      using add_scatter_loop_ok [OF x r, of 0 F0] by simp
    have g: "length ys > 1" "tl ys = rest" "ys ! 1 = y1"
      by (simp_all add: s Cons)
    have m: "multi_y t x ys F0 =
               Inr (update_layout
                      (F0\<lparr>added := added F0 @ map (\<lambda>(j, y). overlay t x j y) (zip [0..<length rest] rest)\<rparr>)
                      ''yaxis2''
                      \<lparr>axis_title = the (map_of INDICATOR_MAPPING y1), overlaying = Some ''y'',
                        side = Some ''right''\<rparr>)"
      by (simp only: multi_y_def g if_True loop sum.case l1)
    show ?thesis
      unfolding bf m sum.case at
      by (simp add: F0_def set_title_def update_layout_def title_axis_def g) (simp add: s Cons)
  qed
qed

lemma example_columns2: "''computer_count'' \<in> set indicator_keys"
  by (simp add: indicator_keys_def INDICATOR_MAPPING_def)

lemma example_aggregate2:
  "aggregate example_df [] ''reading_score'' [''home_books'', ''teaching_years''] = Inr example_agg2"
  by (simp add: aggregate_eq example_columns example_numerics apply_filter_def example_groupby
      unique_def example_agg2_def avg_def mean_def column_of_def exact_numerics_def)

lemma example_aggregate3:
  "aggregate example_df [] ''reading_score'' [''home_books'', ''teaching_years'', ''computer_count'']
     = Inr example_agg3"
  by (simp add: aggregate_eq example_columns example_columns2 example_numerics apply_filter_def
      example_groupby unique_def example_agg3_def avg_def mean_def column_of_def
      exact_numerics_def)

lemma aggregate_avg_columns:
  assumes "aggregate df sel x ys = Inr t"
  shows "avg x \<in> set (tcolumns t)" and "\<forall>y \<in> set ys. avg y \<in> set (tcolumns t)"
  using aggregate_columns [OF assms] by (simp_all add: set_unique)

lemma overlays_nth:
  "i < length rest \<Longrightarrow>
     map (\<lambda>(j, y). overlay t x j y) (zip [0..<length rest] rest) ! i = overlay t x i (rest ! i)"
  by simp

lemma inj_axis_id: "inj (\<lambda>i. ''y'' @ str_nat (i + 2))"
  by (rule injI) (auto dest: str_nat_inj)

text \<open>
  Claim C8, as amended. For a Y selection of \<open>k \<ge> 2\<close> catalogue keys on an aggregated
  table, the figure is built and has exactly \<open>k - 1\<close> added traces; trace \<open>i\<close> (counted from
  0) is the overlay of the Y key at position \<open>i + 1\<close>, has the marker symbol \<open>i + 2\<close> and is
  bound to the axis id \<open>y\<close> followed by the decimal text of \<open>i + 2\<close>, so that only the first
  added trace is bound to \<open>y2\<close>; the marker symbols are pairwise different, and so are the
  axis ids. The layout has the axes \<open>xaxis\<close>, \<open>yaxis\<close> and \<open>yaxis2\<close> and no other; \<open>yaxis2\<close>
  overlays \<open>y\<close> on the right side and is titled with the label of the second Y key.
\<close>

theorem overlays_and_secondary_axis:
  assumes "aggregate df selected_countries x_axis y_axes = Inr agg_df"
    and "2 \<le> length y_axes"
    and "set (x_axis # y_axes) \<subseteq> set indicator_keys"
  shows "\<exists>fig. build_figure agg_df x_axis y_axes = Inr fig
           \<and> length (added fig) = length y_axes - 1
           \<and> (\<forall>i < length y_axes - 1.
                 added fig ! i = overlay agg_df x_axis i (y_axes ! (i + 1))
                 \<and> marker_symbol (added fig ! i) = i + 2
                 \<and> trace_yaxis (added fig ! i) = ''y'' @ str_nat (i + 2)
                 \<and> (trace_yaxis (added fig ! i) = ''y2'' \<longleftrightarrow> i = 0))
           \<and> distinct (map marker_symbol (added fig))
           \<and> distinct (map trace_yaxis (added fig))
           \<and> map fst (layout_axes fig) = [''xaxis'', ''yaxis'', ''yaxis2'']
           \<and> map_of (layout_axes fig) ''yaxis2''
               = Some \<lparr>axis_title = the (map_of INDICATOR_MAPPING (y_axes ! 1)),
                       overlaying = Some ''y'', side = Some ''right''\<rparr>"
proof -
  let ?rest = "tl y_axes"
  let ?ts = "map (\<lambda>(j, y). overlay agg_df x_axis j y) (zip [0..<length ?rest] ?rest)"
  from assms(2) have ne: "y_axes \<noteq> []" and gt: "length y_axes > 1" by auto
  note cols = aggregate_avg_columns [OF assms(1)]
  note bf = build_figure_ok [OF cols assms(3) ne]
  have len: "length ?ts = length y_axes - 1" by simp
  have nth: "?ts ! i = overlay agg_df x_axis i (y_axes ! (i + 1))" if "i < length y_axes - 1" for i
    using that by (simp add: nth_tl)
  have y2: "(''y'' @ str_nat (i + 2) = ''y2'') \<longleftrightarrow> i = 0" for i
  proof
    assume "''y'' @ str_nat (i + 2) = ''y2''"
    then have "str_nat (i + 2) = str_nat 2" by (simp add: str_nat_2)
    then have "i + 2 = 2" by (rule str_nat_inj)
    then show "i = 0" by simp
  next
    assume "i = 0"
    then have "str_nat (i + 2) = ''2''" by (simp only: add_0 str_nat_2)
    then show "''y'' @ str_nat (i + 2) = ''y2''" by simp
  qed
  have sym: "map marker_symbol ?ts = map (\<lambda>i. i + 2) [0..<length ?rest]"
    by (rule nth_equalityI) (simp_all add: overlay_def)
  have ax: "map trace_yaxis ?ts = map (\<lambda>i. ''y'' @ str_nat (i + 2)) [0..<length ?rest]"
    by (rule nth_equalityI) (simp_all add: overlay_def)
  have d1: "distinct (map marker_symbol ?ts)"
    unfolding sym by (simp add: distinct_map inj_on_def)
  have d2: "distinct (map trace_yaxis ?ts)"
    unfolding ax using inj_axis_id by (simp add: distinct_map inj_on_def inj_def)
  define fig :: "('a, 'b) figure" where
    "fig = \<lparr>px_data = melt agg_df (avg x_axis) (map avg y_axes), added = ?ts,
            layout_axes =
              [(''xaxis'', title_axis ([24179, 22343, 32] @ the (map_of INDICATOR_MAPPING x_axis))),
               (''yaxis'', title_axis (the (map_of INDICATOR_MAPPING (hd y_axes)))),
               (''yaxis2'', \<lparr>axis_title = the (map_of INDICATOR_MAPPING (y_axes ! 1)),
                             overlaying = Some ''y'', side = Some ''right''\<rparr>)]\<rparr>"
  have b: "build_figure agg_df x_axis y_axes = Inr fig"
    unfolding bf fig_def using gt by simp
  have a: "added fig = ?ts"
    by (simp add: fig_def)
  have pt: "added fig ! i = overlay agg_df x_axis i (y_axes ! (i + 1))
            \<and> marker_symbol (added fig ! i) = i + 2
            \<and> trace_yaxis (added fig ! i) = ''y'' @ str_nat (i + 2)
            \<and> (trace_yaxis (added fig ! i) = ''y2'' \<longleftrightarrow> i = 0)" if "i < length y_axes - 1" for i
  proof -
    have o: "added fig ! i = overlay agg_df x_axis i (y_axes ! (i + 1))"
      unfolding a by (rule nth [OF that])
    have m: "marker_symbol (overlay agg_df x_axis i (y_axes ! (i + 1))) = i + 2"
      and t: "trace_yaxis (overlay agg_df x_axis i (y_axes ! (i + 1))) = ''y'' @ str_nat (i + 2)"
      by (simp_all add: overlay_def)
    show ?thesis
      unfolding o m t using y2 [of i] by blast
  qed
  have l: "length (added fig) = length y_axes - 1"
    unfolding a by (rule len)
  have k: "map fst (layout_axes fig) = [''xaxis'', ''yaxis'', ''yaxis2'']"
    by (simp add: fig_def)
  have y: "map_of (layout_axes fig) ''yaxis2''
               = Some \<lparr>axis_title = the (map_of INDICATOR_MAPPING (y_axes ! 1)),
                       overlaying = Some ''y'', side = Some ''right''\<rparr>"
    by (simp add: fig_def)
  have all: "\<forall>i < length y_axes - 1.
                 added fig ! i = overlay agg_df x_axis i (y_axes ! (i + 1))
                 \<and> marker_symbol (added fig ! i) = i + 2
                 \<and> trace_yaxis (added fig ! i) = ''y'' @ str_nat (i + 2)
                 \<and> (trace_yaxis (added fig ! i) = ''y2'' \<longleftrightarrow> i = 0)"
    using pt by blast
  have d1': "distinct (map marker_symbol (added fig))"
    unfolding a by (rule d1)
  have d2': "distinct (map trace_yaxis (added fig))"
    unfolding a by (rule d2)
  show ?thesis
    by (rule exI [of _ fig]) (intro conjI b l all d1' d2' k y)
qed

theorem overlays_and_secondary_axis_witness:
  "aggregate example_df [] ''reading_score'' [''home_books'', ''teaching_years'', ''computer_count'']
     = Inr example_agg3
   \<and> 2 \<le> length [''home_books'', ''teaching_years'', ''computer_count'']
   \<and> set [''reading_score'', ''home_books'', ''teaching_years'', ''computer_count'']
       \<subseteq> set indicator_keys
   \<and> map_sum id (\<lambda>fig. length (added fig))
       (build_figure example_agg3 ''reading_score''
          [''home_books'', ''teaching_years'', ''computer_count'']) = Inr 2
   \<and> map_sum id (\<lambda>fig. map fst (layout_axes fig))
       (build_figure example_agg3 ''reading_score''
          [''home_books'', ''teaching_years'', ''computer_count''])
       = Inr [''xaxis'', ''yaxis'', ''yaxis2'']"
proof -
  have h2: "2 \<le> length [''home_books'', ''teaching_years'', ''computer_count'']"
    by simp
  have h3: "set (''reading_score'' # [''home_books'', ''teaching_years'', ''computer_count''])
              \<subseteq> set indicator_keys"
    by (simp add: example_columns example_columns2)
  from overlays_and_secondary_axis [OF example_aggregate3 h2 h3]
  obtain fig where "build_figure example_agg3 ''reading_score''
          [''home_books'', ''teaching_years'', ''computer_count''] = Inr fig"
    and "length (added fig) = 2"
    and "map fst (layout_axes fig) = [''xaxis'', ''yaxis'', ''yaxis2'']"
    by auto
  then show ?thesis
    using example_aggregate3 h3 by simp
qed

text \<open>
  Claim C8 as stated fails: with three Y keys the second added trace is bound to the axis
  id \<open>y3\<close>, not to the secondary axis \<open>y2\<close>, and the layout has no entry \<open>yaxis3\<close>.
\<close>

theorem third_series_on_unconfigured_axis:
  "aggregate example_df [] ''reading_score'' [''home_books'', ''teaching_years'', ''computer_count'']
     = Inr example_agg3
   \<and> map_sum id (\<lambda>fig. map trace_yaxis (added fig))
       (build_figure example_agg3 ''reading_score''
          [''home_books'', ''teaching_years'', ''computer_count'']) = Inr [''y2'', ''y3'']
   \<and> map_sum id (\<lambda>fig. map_of (layout_axes fig) ''yaxis3'')
       (build_figure example_agg3 ''reading_score''
          [''home_books'', ''teaching_years'', ''computer_count'']) = Inr None"
proof -
  have x: "avg ''reading_score'' \<in> set (tcolumns example_agg3)"
    by (simp add: example_agg3_def avg_def)
  have ys: "\<forall>y \<in> set [''home_books'', ''teaching_years'', ''computer_count''].
              avg y \<in> set (tcolumns example_agg3)"
    by (simp add: example_agg3_def avg_def)
  have keys: "set (''reading_score'' # [''home_books'', ''teaching_years'', ''computer_count''])
              \<subseteq> set indicator_keys"
    by (simp add: example_columns example_columns2)
  have u: "[0..<2] = [0, 1]"
    by (simp add: upt_rec)
  note bf = build_figure_ok [OF x ys keys]
  have s2: "str_nat (Suc (Suc 0)) = ''2''" and s3: "str_nat (Suc (Suc (Suc 0))) = ''3''"
    by (simp_all add: str_nat_small digit_def)
  show ?thesis
    by (simp add: bf example_aggregate3 overlay_def s2 s3 u title_axis_def)
qed

lemma melt_append: "melt t x (as @ bs) = melt t x as @ melt t x bs"
  by (simp add: melt_def)

lemma melt_one:
  "melt t x [y] = map (\<lambda>(c, vals). (c, read_cell t vals x, y, read_cell t vals y)) (trows t)"
  by (simp add: melt_def)

lemma filter_melt_same: "filter (\<lambda>p. fst (snd (snd p)) = y) (melt t x [y]) = melt t x [y]"
  by (auto simp: melt_one filter_id_conv)

lemma filter_melt_other:
  "y \<noteq> z \<Longrightarrow> filter (\<lambda>p. fst (snd (snd p)) = y) (melt t x [z]) = []"
  by (auto simp: melt_one filter_empty_conv)

text \<open>
  Claim C5, as amended. Let \<open>A\<close> and \<open>B\<close> be different catalogue keys, the X key a catalogue
  key different from both, and all three columns of the dataset. Then both selections
  \<open>[A]\<close> and \<open>[A, B]\<close> give a figure; the first has no added trace and the second exactly
  one, the overlay of \<open>B\<close>; the aggregated columns of X and of \<open>A\<close> are the same in both
  tables; the points \<open>px.scatter\<close> is given for \<open>[A, B]\<close> are the points it is given for
  \<open>[A]\<close> followed by one point per table row for \<open>B\<close>, so the points of indicator \<open>A\<close> are
  unchanged.
\<close>

theorem second_y_adds_one_overlay:
  assumes "A \<noteq> B" and "x_axis \<notin> {A, B}"
    and "{x_axis, A, B} \<subseteq> set indicator_keys"
    and "{x_axis, A, B} \<subseteq> set (columns df)"
  shows "\<exists>t1 t2 f1 f2.
           aggregate df selected_countries x_axis [A] = Inr t1
           \<and> aggregate df selected_countries x_axis [A, B] = Inr t2
           \<and> build_figure t1 x_axis [A] = Inr f1
           \<and> build_figure t2 x_axis [A, B] = Inr f2
           \<and> added f1 = []
           \<and> added f2 = [overlay t2 x_axis 0 B]
           \<and> column_cells t2 (avg x_axis) = column_cells t1 (avg x_axis)
           \<and> column_cells t2 (avg A) = column_cells t1 (avg A)
           \<and> px_data f1 = melt t1 (avg x_axis) [avg A]
           \<and> px_data f2 = px_data f1 @ melt t2 (avg x_axis) [avg B]
           \<and> filter (\<lambda>p. fst (snd (snd p)) = avg A) (px_data f2) = px_data f1"
proof -
  define G where "G = groupby (rows (apply_filter selected_countries df))"
  define t1 :: "('a, 'b) table" where
    "t1 = \<lparr>tcolumns = [avg x_axis, avg A], tid_number = id_number df,
           tnumerics = numerics df,
           trows = map (\<lambda>(c, g). (c, [mean (numerics df) (column_of x_axis g),
                                        mean (numerics df) (column_of A g)])) G\<rparr>"
  define t2 :: "('a, 'b) table" where
    "t2 = \<lparr>tcolumns = [avg x_axis, avg A, avg B], tid_number = id_number df,
           tnumerics = numerics df,
           trows = map (\<lambda>(c, g). (c, [mean (numerics df) (column_of x_axis g),
                                        mean (numerics df) (column_of A g),
                                        mean (numerics df) (column_of B g)])) G\<rparr>"
  from assms(2) have xa: "x_axis \<noteq> A" and xb: "x_axis \<noteq> B" by auto
  have u: "unique [A] = [A]" "unique [A, B] = [A, B]"
    using assms(1) by (simp_all add: unique_distinct)
  have a1: "aggregate df selected_countries x_axis [A] = Inr t1"
    using assms(4) xa by (simp add: aggregate_eq u t1_def G_def)
  have a2: "aggregate df selected_countries x_axis [A, B] = Inr t2"
    using assms(4) xa xb by (simp add: aggregate_eq u t2_def G_def)
  have k1: "set (x_axis # [A]) \<subseteq> set indicator_keys"
    and k2: "set (x_axis # [A, B]) \<subseteq> set indicator_keys"
    using assms(3) by simp_all
  note b1 = build_figure_ok [OF aggregate_avg_columns [OF a1] k1]
  note b2 = build_figure_ok [OF aggregate_avg_columns [OF a2] k2]
  obtain f1 where f1: "build_figure t1 x_axis [A] = Inr f1"
    and ad1: "added f1 = []" and px1: "px_data f1 = melt t1 (avg x_axis) [avg A]"
    using b1 by simp
  have z: "zip [0..<Suc 0] [B] = [(0, B)]"
    by simp
  obtain f2 where f2: "build_figure t2 x_axis [A, B] = Inr f2"
    and ad2: "added f2 = [overlay t2 x_axis 0 B]"
    and px2: "px_data f2 = melt t2 (avg x_axis) [avg A, avg B]"
    using b2 by (simp add: z)
  have cx: "column_cells t2 (avg x_axis) = column_cells t1 (avg x_axis)"
    by (simp add: column_cells_def read_cell_def cell_at_def t1_def t2_def comp_def case_prod_unfold)
  have ca: "column_cells t2 (avg A) = column_cells t1 (avg A)"
    using xa by (simp add: column_cells_def read_cell_def cell_at_def t1_def t2_def comp_def
        case_prod_unfold avg_inj)
  have m: "melt t2 (avg x_axis) [avg A] = melt t1 (avg x_axis) [avg A]"
    using xa by (simp add: melt_one read_cell_def cell_at_def t1_def t2_def comp_def
        case_prod_unfold avg_inj)
  have "melt t2 (avg x_axis) [avg A, avg B]
          = melt t2 (avg x_axis) [avg A] @ melt t2 (avg x_axis) [avg B]"
    using melt_append [of t2 "avg x_axis" "[avg A]" "[avg B]"] by simp
  then have p: "px_data f2 = px_data f1 @ melt t2 (avg x_axis) [avg B]"
    by (simp only: px1 px2 m)
  have ne: "avg A \<noteq> avg B"
    using assms(1) by (simp add: avg_inj)
  have f: "filter (\<lambda>p. fst (snd (snd p)) = avg A) (px_data f2) = px_data f1"
    unfolding p filter_append px1 filter_melt_same filter_melt_other [OF ne] by simp
  show ?thesis
    by (intro exI [of _ t1] exI [of _ t2] exI [of _ f1] exI [of _ f2] conjI
        a1 a2 f1 f2 ad1 ad2 cx ca px1 p f)
qed

lemma example_aggregate_dup:
  "aggregate example_df [] ''teaching_years'' [''home_books'', ''teaching_years''] = Inl TypeError"
  by (simp add: aggregate_eq)

theorem second_y_adds_one_overlay_witness:
  "''home_books'' \<noteq> ''teaching_years''
   \<and> ''reading_score'' \<notin> {''home_books'', ''teaching_years''}
   \<and> {''reading_score'', ''home_books'', ''teaching_years''} \<subseteq> set indicator_keys
   \<and> {''reading_score'', ''home_books'', ''teaching_years''} \<subseteq> set (columns example_df)
   \<and> map_sum id (\<lambda>f. length (added f)) (build_figure example_agg ''reading_score'' [''home_books''])
       = Inr 0
   \<and> map_sum id (\<lambda>f. length (added f))
       (build_figure example_agg2 ''reading_score'' [''home_books'', ''teaching_years'']) = Inr 1"
proof -
  have h1: "''home_books'' \<noteq> ''teaching_years''" by simp
  have h2: "''reading_score'' \<notin> {''home_books'', ''teaching_years''}" by simp
  have h3: "{''reading_score'', ''home_books'', ''teaching_years''} \<subseteq> set indicator_keys"
    by (simp add: example_columns)
  have h4: "{''reading_score'', ''home_books'', ''teaching_years''} \<subseteq> set (columns example_df)"
    by (simp add: example_numerics example_columns)
  from second_y_adds_one_overlay [OF h1 h2 h3 h4, of "[]"]
  obtain t1 t2 f1 f2 where
    "aggregate example_df [] ''reading_score'' [''home_books''] = Inr t1"
    "aggregate example_df [] ''reading_score'' [''home_books'', ''teaching_years''] = Inr t2"
    "build_figure t1 ''reading_score'' [''home_books''] = Inr f1"
    "build_figure t2 ''reading_score'' [''home_books'', ''teaching_years''] = Inr f2"
    "added f1 = []" "added f2 = [overlay t2 ''reading_score'' 0 ''teaching_years'']"
    by blast
  then have "map_sum id (\<lambda>f. length (added f)) (build_figure example_agg ''reading_score'' [''home_books''])
       = Inr 0
   \<and> map_sum id (\<lambda>f. length (added f))
       (build_figure example_agg2 ''reading_score'' [''home_books'', ''teaching_years'']) = Inr 1"
    by (simp add: example_aggregate example_aggregate2)
  with h1 h2 h3 h4 show ?thesis by blast
qed

text \<open>
  Claim C5 as stated fails: on the small dataset the data of the figure built by
  \<open>px.scatter\<close> for \<open>[home_books, teaching_years]\<close> differs from its data for
  \<open>[home_books]\<close>, because it holds the points of both indicators; and when the X key is
  the added key, the selection \<open>[A, B]\<close> gives no figure at all.
\<close>

theorem primary_figure_gains_second_indicator:
  "aggregate example_df [] ''reading_score'' [''home_books''] = Inr example_agg
   \<and> aggregate example_df [] ''reading_score'' [''home_books'', ''teaching_years''] = Inr example_agg2
   \<and> map_sum id px_data (build_figure example_agg ''reading_score'' [''home_books''])
       = Inr [(''A'', Some 15, ''avg_home_books'', Some 1), (''B'', Some 5, ''avg_home_books'', Some 4)]
   \<and> map_sum id px_data (build_figure example_agg2 ''reading_score'' [''home_books'', ''teaching_years''])
       = Inr [(''A'', Some 15, ''avg_home_books'', Some 1), (''B'', Some 5, ''avg_home_books'', Some 4),
              (''A'', Some 15, ''avg_teaching_years'', Some (5 / 2)),
              (''B'', Some 5, ''avg_teaching_years'', Some 7)]
   \<and> map_sum id px_data (build_figure example_agg2 ''reading_score'' [''home_books'', ''teaching_years''])
       \<noteq> map_sum id px_data (build_figure example_agg ''reading_score'' [''home_books''])
   \<and> aggregate example_df [] ''teaching_years'' [''home_books'', ''teaching_years''] = Inl TypeError"
proof -
  have k1: "set (''reading_score'' # [''home_books'']) \<subseteq> set indicator_keys"
    and k2: "set (''reading_score'' # [''home_books'', ''teaching_years'']) \<subseteq> set indicator_keys"
    by (simp_all add: example_columns)
  have n1: "[''home_books''] \<noteq> []" and n2: "[''home_books'', ''teaching_years''] \<noteq> []"
    by simp_all
  note b1 = build_figure_ok [OF aggregate_avg_columns [OF example_aggregate] k1 n1]
  note b2 = build_figure_ok [OF aggregate_avg_columns [OF example_aggregate2] k2 n2]
  have p1: "map_sum id px_data (build_figure example_agg ''reading_score'' [''home_books''])
       = Inr [(''A'', Some 15, ''avg_home_books'', Some 1), (''B'', Some 5, ''avg_home_books'', Some 4)]"
    unfolding b1 by (simp add: melt_def read_cell_def cell_at_def example_agg_def avg_def)
  have p2: "map_sum id px_data (build_figure example_agg2 ''reading_score'' [''home_books'', ''teaching_years''])
       = Inr [(''A'', Some 15, ''avg_home_books'', Some 1), (''B'', Some 5, ''avg_home_books'', Some 4),
              (''A'', Some 15, ''avg_teaching_years'', Some (5 / 2)),
              (''B'', Some 5, ''avg_teaching_years'', Some 7)]"
    unfolding b2 by (simp add: melt_def read_cell_def cell_at_def example_agg2_def avg_def)
  show ?thesis
    unfolding p1 p2 by (simp add: example_aggregate example_aggregate2 example_aggregate_dup)
qed

subsection \<open>The export and the table view\<close>





























end
